theory Spec2Isabelle
  imports Main "HOL-Library.Sublist"
begin

section \<open>The debug server of rosu-game: \<^verbatim>\<open>wasm/debug_server.py\<close>\<close>

text \<open>
  The repository's only Python file is a request handler built on
  \<^verbatim>\<open>http.server.BaseHTTPRequestHandler\<close>. Its method \<^verbatim>\<open>do_GET\<close> reads
  \<^verbatim>\<open>self.path\<close>, looks at the filesystem and calls \<^verbatim>\<open>send_response\<close>,
  \<^verbatim>\<open>send_header\<close>, \<^verbatim>\<open>end_headers\<close> and \<^verbatim>\<open>wfile.write\<close>.

  The embedding is a state-passing function over a \<open>world\<close>: the filesystem, the
  bind address and the ordered log of every effect the handler has had. An exception
  that leaves \<^verbatim>\<open>do_GET\<close> is the outcome \<open>Raised\<close>.

  Python's \<^verbatim>\<open>str\<close> request target is the request line decoded as ISO-8859-1, one
  character for each byte, so it is a \<open>string\<close> here; file contents are byte
  strings, \<open>bytes\<close>.
\<close>

type_synonym bytes = string

datatype py_error = ValueError | FileNotFoundError | IsADirectoryError | PermissionError

subsection \<open>The filesystem, as \<^verbatim>\<open>os.path.exists\<close> and \<^verbatim>\<open>open\<close> see it\<close>

text \<open>
  What the operating system holds under a path string: nothing, a regular file the
  process may read (with its contents), a directory, or an entry the process has no
  permission to open. Two strings that name the same inode are two arguments of this
  function; nothing here normalises a path, as nothing in the handler does.
\<close>

datatype entry = File bytes | Directory | Unreadable

type_synonym filesystem = "string \<Rightarrow> entry option"

text \<open>\<^verbatim>\<open>os.path.exists(path)\<close>: true for any entry, whatever its kind; it never raises.\<close>

definition os_path_exists :: "filesystem \<Rightarrow> string \<Rightarrow> bool" where
  "os_path_exists fs p = (fs p \<noteq> None)"

text \<open>
  \<^verbatim>\<open>open(path, 'rb')\<close> followed by \<^verbatim>\<open>file.read()\<close>: the whole contents of a
  readable regular file, or the \<^verbatim>\<open>OSError\<close> subclass that \<^verbatim>\<open>open\<close> raises.
\<close>

definition open_rb :: "filesystem \<Rightarrow> string \<Rightarrow> py_error + bytes" where
  "open_rb fs p =
     (case fs p of
        None \<Rightarrow> Inl FileNotFoundError
      | Some (File b) \<Rightarrow> Inr b
      | Some Directory \<Rightarrow> Inl IsADirectoryError
      | Some Unreadable \<Rightarrow> Inl PermissionError)"

subsection \<open>\<^verbatim>\<open>urllib.parse.urlparse\<close>\<close>

text \<open>
  Line 7 of the handler calls \<^verbatim>\<open>urllib.parse.urlparse(self.path)\<close> and binds the
  result to a variable that is never read. The call is not free of consequences: it
  raises \<^verbatim>\<open>ValueError\<close> on some request targets, before anything has been sent.
  The functions below follow CPython 3.11's \<^verbatim>\<open>Lib/urllib/parse.py\<close>
  (\<^verbatim>\<open>urlsplit\<close>, \<^verbatim>\<open>_splitnetloc\<close>, \<^verbatim>\<open>_checknetloc\<close>, \<^verbatim>\<open>_splitparams\<close>,
  \<^verbatim>\<open>urlparse\<close>) for a \<^verbatim>\<open>str\<close> argument and the default \<^verbatim>\<open>scheme=''\<close>,
  \<^verbatim>\<open>allow_fragments=True\<close>. Two checks of the library are not computed here but
  taken from the \<open>platform\<close>: the validation of a bracketed host (it parses IP
  addresses) and the NFKC test on a non-ASCII network location (it needs the Unicode
  tables).
\<close>

record platform =
  bracketed_host_ok :: "string \<Rightarrow> bool"
  nfkc_netloc_ok :: "string \<Rightarrow> bool"
  concurrent :: "filesystem \<Rightarrow> filesystem"

record parse_result =
  scheme :: string
  netloc :: string
  url_path :: string
  params :: string
  query :: string
  fragment :: string

definition ascii_letters :: string where
  "ascii_letters = ''abcdefghijklmnopqrstuvwxyzABCDEFGHIJKLMNOPQRSTUVWXYZ''"

definition scheme_chars :: string where
  "scheme_chars = ''abcdefghijklmnopqrstuvwxyzABCDEFGHIJKLMNOPQRSTUVWXYZ0123456789+-.''"

definition uses_params :: "string list" where
  "uses_params = ['''', ''ftp'', ''hdl'', ''prospero'', ''http'', ''imap'', ''https'',
     ''shttp'', ''rtsp'', ''rtsps'', ''rtspu'', ''sip'', ''sips'', ''mms'', ''sftp'', ''tel'']"

text \<open>\<^verbatim>\<open>str.lower\<close> on one character of \<open>scheme_chars\<close>.\<close>

definition lower_char :: "char \<Rightarrow> char" where
  "lower_char c =
     (case map_of (zip ''ABCDEFGHIJKLMNOPQRSTUVWXYZ'' ''abcdefghijklmnopqrstuvwxyz'') c of
        None \<Rightarrow> c | Some l \<Rightarrow> l)"

text \<open>\<^verbatim>\<open>_WHATWG_C0_CONTROL_OR_SPACE\<close>: the characters U+0000 to U+0020.\<close>

definition c0_control_or_space :: "char \<Rightarrow> bool" where
  "c0_control_or_space c = ((of_char c :: nat) \<le> 32)"

text \<open>\<^verbatim>\<open>_UNSAFE_URL_BYTES_TO_REMOVE = ['\t', '\r', '\n']\<close>.\<close>

definition unsafe_url_byte :: "char \<Rightarrow> bool" where
  "unsafe_url_byte c = (c = CHR 0x09 \<or> c = CHR 0x0D \<or> c = CHR 0x0A)"

text \<open>\<^verbatim>\<open>s.partition(c)\<close> without its middle component: the text before the first
  \<open>c\<close> and the text after it (empty when \<open>c\<close> does not occur).\<close>

definition partition_at :: "char \<Rightarrow> string \<Rightarrow> string \<times> string" where
  "partition_at c s = (takeWhile (\<lambda>x. x \<noteq> c) s, drop 1 (dropWhile (\<lambda>x. x \<noteq> c) s))"

text \<open>The scheme test of \<^verbatim>\<open>urlsplit\<close>: \<^verbatim>\<open>i = url.find(':')\<close>, \<^verbatim>\<open>i > 0\<close>, a first
  character that is an ASCII letter, and only \<open>scheme_chars\<close> before the colon.\<close>

definition split_scheme :: "string \<Rightarrow> string \<times> string" where
  "split_scheme url =
     (let pre = takeWhile (\<lambda>x. x \<noteq> CHR '':'') url in
      if CHR '':'' \<in> set url \<and> pre \<noteq> [] \<and> hd pre \<in> set ascii_letters
         \<and> (\<forall>c \<in> set pre. c \<in> set scheme_chars)
      then (map lower_char pre, drop (length pre + 1) url)
      else ('''', url))"

text \<open>\<^verbatim>\<open>_splitnetloc(url, 2)\<close>: the network location runs from index 2 to the first of
  \<open>/\<close>, \<open>?\<close>, \<open>#\<close> (or to the end).\<close>

definition splitnetloc :: "string \<Rightarrow> string \<times> string" where
  "splitnetloc url =
     (takeWhile (\<lambda>x. x \<notin> set ''/?#'') (drop 2 url),
      dropWhile (\<lambda>x. x \<notin> set ''/?#'') (drop 2 url))"

text \<open>\<^verbatim>\<open>_checknetloc\<close>: nothing to check on an empty or ASCII network location.\<close>

definition checknetloc :: "platform \<Rightarrow> string \<Rightarrow> bool" where
  "checknetloc pf nl = (nl = [] \<or> (\<forall>c \<in> set nl. (of_char c :: nat) < 128) \<or> nfkc_netloc_ok pf nl)"

definition urlsplit :: "platform \<Rightarrow> string \<Rightarrow> py_error + (string \<times> string \<times> string \<times> string \<times> string)" where
  "urlsplit pf url0 =
     (let url1 = dropWhile c0_control_or_space url0;
          url2 = filter (\<lambda>c. \<not> unsafe_url_byte c) url1;
          (sch, url3) = split_scheme url2;
          (nl, url4) = (if take 2 url3 = ''//'' then splitnetloc url3 else ('''', url3))
      in
      if take 2 url3 = ''//'' \<and>
         ((CHR ''['' \<in> set nl \<and> CHR '']'' \<notin> set nl) \<or> (CHR '']'' \<in> set nl \<and> CHR ''['' \<notin> set nl))
      then Inl ValueError
      else if take 2 url3 = ''//'' \<and> CHR ''['' \<in> set nl \<and> CHR '']'' \<in> set nl
              \<and> \<not> bracketed_host_ok pf (fst (partition_at CHR '']'' (snd (partition_at CHR ''['' nl))))
      then Inl ValueError
      else
        (let (url5, frag) = (if CHR ''#'' \<in> set url4 then partition_at CHR ''#'' url4 else (url4, ''''));
             (url6, qry) = (if CHR ''?'' \<in> set url5 then partition_at CHR ''?'' url5 else (url5, ''''))
         in if checknetloc pf nl then Inr (sch, nl, url6, qry, frag) else Inl ValueError))"

text \<open>\<^verbatim>\<open>_splitparams\<close>, called only when \<open>;\<close> occurs in the path: the parameters start
  at the first \<open>;\<close> of the last path segment.\<close>

definition last_segment_start :: "string \<Rightarrow> nat" where
  "last_segment_start url = length url - 1 - length (takeWhile (\<lambda>x. x \<noteq> CHR ''/'') (rev url))"

definition splitparams :: "string \<Rightarrow> string \<times> string" where
  "splitparams url =
     (if CHR ''/'' \<in> set url then
        (let k = last_segment_start url in
         if CHR '';'' \<in> set (drop k url)
         then (take k url @ fst (partition_at CHR '';'' (drop k url)), snd (partition_at CHR '';'' (drop k url)))
         else (url, ''''))
      else partition_at CHR '';'' url)"

definition urlparse :: "platform \<Rightarrow> string \<Rightarrow> py_error + parse_result" where
  "urlparse pf url =
     (case urlsplit pf url of
        Inl e \<Rightarrow> Inl e
      | Inr (sch, nl, u, qry, frag) \<Rightarrow>
          (let (u', prm) = (if sch \<in> set uses_params \<and> CHR '';'' \<in> set u then splitparams u else (u, ''''))
           in Inr \<lparr>scheme = sch, netloc = nl, url_path = u', params = prm, query = qry, fragment = frag\<rparr>))"

subsection \<open>Effects and the world\<close>

text \<open>
  Every call the handler makes on the operating system or on the connection is
  recorded, in order. \<open>Open p m\<close> is the call \<^verbatim>\<open>open(p, m)\<close>, whether it succeeds
  or raises; \<open>File_read\<close> and \<open>File_close\<close> are the \<^verbatim>\<open>file.read()\<close> and the
  exit of the \<^verbatim>\<open>with\<close> block. The four last constructors are the methods of
  \<^verbatim>\<open>BaseHTTPRequestHandler\<close>; what the library makes of them on the wire (the status
  line, its own \<^verbatim>\<open>Server\<close> and \<^verbatim>\<open>Date\<close> headers) is the last subsection
  of the definitions.
  The connection is taken to accept every write.
\<close>

datatype effect =
    Os_path_exists string
  | Open string string
  | File_read string
  | File_close string
  | Send_response nat
  | Send_header string string
  | End_headers
  | Wfile_write bytes

datatype outcome = Returned | Raised py_error

record world =
  filesystem :: filesystem
  server_address :: "string \<times> nat"
  effects :: "effect list"

definition emit :: "effect list \<Rightarrow> world \<Rightarrow> world" where
  "emit es w = w\<lparr>effects := effects w @ es\<rparr>"

text \<open>
  The handler is one process among others. \<open>concurrent pf\<close> is what the others do to
  the filesystem between the handler's two system calls on the static branch, the
  existence check and the open; it is the identity when nothing else touches the files.
\<close>

definition meanwhile :: "platform \<Rightarrow> world \<Rightarrow> world" where
  "meanwhile pf w = w\<lparr>filesystem := concurrent pf (filesystem w)\<rparr>"

subsection \<open>The handler\<close>

text \<open>\<^verbatim>\<open>s.startswith(pre)\<close>.\<close>

definition startswith :: "string \<Rightarrow> string \<Rightarrow> bool" where
  "startswith s pre = prefix pre s"

text \<open>
  The block that ends both success branches (lines 16-17 and 30-31):
  \<^verbatim>\<open>
  with open(path, 'rb') as file:
      self.wfile.write(file.read())
  \<close>
\<close>

definition with_open_write :: "string \<Rightarrow> world \<Rightarrow> outcome \<times> world" where
  "with_open_write path w =
     (case open_rb (filesystem w) path of
        Inl e \<Rightarrow> (Raised e, emit [Open path ''rb''] w)
      | Inr content \<Rightarrow>
          (Returned, emit [Open path ''rb'', File_read path, Wfile_write content, File_close path] w))"

text \<open>
  \<^verbatim>\<open>
  def do_GET(self):
      parsed_path = urllib.parse.urlparse(self.path)
      if self.path.startswith('/static/'):
          path = '.' + self.path
          if os.path.exists(path):
              self.send_response(200)
              self.send_header('Content-type', 'text/javascript')
              self.end_headers()
              with open(path, 'rb') as file:
                  self.wfile.write(file.read())
          else:
              self.send_response(404)
              self.send_header('Content-type', 'text/plain')
              self.end_headers()
              self.wfile.write(b'Not Found')
      else:
          path = './index.html'
          self.send_response(200)
          self.send_header('Content-type', 'text/html')
          self.send_header('Access-Control-Allow-Origin', 'null')
          self.end_headers()
          with open(path, 'rb') as file:
              self.wfile.write(file.read())
  \<close>
  There is no \<^verbatim>\<open>try\<close> in the file: whatever a call raises leaves \<^verbatim>\<open>do_GET\<close>.
\<close>

definition do_GET :: "platform \<Rightarrow> world \<Rightarrow> string \<Rightarrow> outcome \<times> world" where
  "do_GET pf w self_path =
     (case urlparse pf self_path of
        Inl e \<Rightarrow> (Raised e, w)
      | Inr parsed_path \<Rightarrow>
          if startswith self_path ''/static/'' then
            (let path = ''.'' @ self_path;
                 w1 = emit [Os_path_exists path] w
             in
             if os_path_exists (filesystem w) path then
               with_open_write path
                 (meanwhile pf
                   (emit [Send_response 200,
                          Send_header ''Content-type'' ''text/javascript'',
                          End_headers] w1))
             else
               (Returned,
                emit [Send_response 404,
                      Send_header ''Content-type'' ''text/plain'',
                      End_headers,
                      Wfile_write ''Not Found''] w1))
          else
            (let path = ''./index.html'' in
             with_open_write path
               (emit [Send_response 200,
                      Send_header ''Content-type'' ''text/html'',
                      Send_header ''Access-Control-Allow-Origin'' ''null'',
                      End_headers] w)))"

text \<open>What one request added to the log, and the part of it that goes to the client.\<close>

definition trace :: "platform \<Rightarrow> world \<Rightarrow> string \<Rightarrow> effect list" where
  "trace pf w self_path = drop (length (effects w)) (effects (snd (do_GET pf w self_path)))"

fun to_client :: "effect \<Rightarrow> bool" where
  "to_client (Send_response _) = True"
| "to_client (Send_header _ _) = True"
| "to_client End_headers = True"
| "to_client (Wfile_write _) = True"
| "to_client _ = False"

fun status_codes :: "effect list \<Rightarrow> nat list" where
  "status_codes [] = []"
| "status_codes (Send_response c # es) = c # status_codes es"
| "status_codes (_ # es) = status_codes es"

fun bodies :: "effect list \<Rightarrow> bytes list" where
  "bodies [] = []"
| "bodies (Wfile_write b # es) = b # bodies es"
| "bodies (_ # es) = bodies es"

text \<open>The paths handed to the operating system, in order.\<close>

fun consulted :: "effect list \<Rightarrow> string list" where
  "consulted [] = []"
| "consulted (Os_path_exists p # es) = p # consulted es"
| "consulted (Open p _ # es) = p # consulted es"
| "consulted (_ # es) = consulted es"

text \<open>An effect that cannot change a file: everything but an \<^verbatim>\<open>open\<close> in a mode other
  than \<^verbatim>\<open>'rb'\<close>.\<close>

fun read_only :: "effect \<Rightarrow> bool" where
  "read_only (Open _ m) = (m = ''rb'')"
| "read_only _ = True"

subsection \<open>Lexical path resolution\<close>

text \<open>
  Where a relative path leads when no component is a symbolic link, as
  \<^verbatim>\<open>os.path.normpath\<close> computes it: empty components and \<open>.\<close> are dropped, \<open>..\<close>
  removes the component before it, or stays when there is none to remove. The result is
  the list of components below the working directory. The handler never calls this; it
  serves to say where the path it consults leads.
\<close>

fun split_on :: "char \<Rightarrow> string \<Rightarrow> string list" where
  "split_on c [] = [[]]"
| "split_on c (x # xs) =
     (if x = c then [] # split_on c xs
      else (case split_on c xs of [] \<Rightarrow> [[x]] | s # ss \<Rightarrow> (x # s) # ss))"

fun resolve_step :: "string list \<Rightarrow> string \<Rightarrow> string list" where
  "resolve_step stack seg =
     (if seg = [] \<or> seg = ''.'' then stack
      else if seg = ''..'' then
        (if stack = [] \<or> last stack = ''..'' then stack @ [seg] else butlast stack)
      else stack @ [seg])"

definition resolve :: "string \<Rightarrow> string list" where
  "resolve p = foldl resolve_step [] (split_on CHR ''/'' p)"

definition under_static :: "string \<Rightarrow> bool" where
  "under_static p = (case resolve p of [] \<Rightarrow> False | d # _ \<Rightarrow> d = ''static'')"

subsection \<open>A working directory to run the handler in\<close>

text \<open>
  The files of the specification's end-to-end scenarios, \<^verbatim>\<open>index.html\<close> and
  \<^verbatim>\<open>static/app.js\<close>, in a filesystem that resolves every path string it is
  given; and a platform on which no other process touches them.
\<close>

definition quiet :: platform where
  "quiet = \<lparr>bracketed_host_ok = (\<lambda>_. False), nfkc_netloc_ok = (\<lambda>_. False), concurrent = id\<rparr>"

definition cwd :: filesystem where
  "cwd p =
     (let r = resolve p in
      if r = [] \<or> r = [''static''] then Some Directory
      else if r = [''index.html''] then Some (File ''<html></html>'')
      else if r = [''static'', ''app.js''] then Some (File ''console.log(1);'')
      else None)"

definition idle :: world where
  "idle = \<lparr>filesystem = cwd, server_address = (''0.0.0.0'', 8000), effects = []\<rparr>"

text \<open>
  The same directory in other states: without \<^verbatim>\<open>index.html\<close>; with
  \<^verbatim>\<open>static/app.js\<close> closed to the server's user; with a second file whose name is
  \<open>app.js?v=2\<close>, question mark included. And a platform on which another process
  removes \<^verbatim>\<open>static/app.js\<close> while the handler is between its check and its open.
\<close>

definition no_index :: world where
  "no_index = idle\<lparr>filesystem := cwd(''./index.html'' := None)\<rparr>"

definition locked :: world where
  "locked = idle\<lparr>filesystem := cwd(''./static/app.js'' \<mapsto> Unreadable)\<rparr>"

definition shadowed :: world where
  "shadowed = idle\<lparr>filesystem := cwd(''./static/app.js?v=2'' \<mapsto> File ''console.log(0);'')\<rparr>"

definition racing :: platform where
  "racing = quiet\<lparr>concurrent := (\<lambda>fs. fs(''./static/app.js'' := None))\<rparr>"

subsection \<open>What the library puts on the wire\<close>

text \<open>
  The handler's four calls on the connection are methods of
  \<^verbatim>\<open>http.server.BaseHTTPRequestHandler\<close> (CPython 3.11, \<^verbatim>\<open>Lib/http/server.py\<close>):
  \<^verbatim>\<open>
  def send_response(self, code, message=None):
      self.log_request(code)
      self.send_response_only(code, message)
      self.send_header('Server', self.version_string())
      self.send_header('Date', self.date_time_string())
  \<close>
  \<^verbatim>\<open>send_response_only\<close> appends the status line
  \<^verbatim>\<open>"%s %d %s\r\n" % (self.protocol_version, code, message)\<close> to the header buffer,
  \<^verbatim>\<open>send_header\<close> appends \<^verbatim>\<open>"%s: %s\r\n" % (keyword, value)\<close>, and
  \<^verbatim>\<open>end_headers\<close> appends the blank line and writes the buffer to \<^verbatim>\<open>wfile\<close>;
  all three do nothing to the buffer when \<^verbatim>\<open>request_version\<close> is \<open>HTTP/0.9\<close>.
  \<^verbatim>\<open>wfile.write\<close> writes its argument at once.

  \<^verbatim>\<open>date_time_string()\<close> formats \<^verbatim>\<open>time.time()\<close>: it is the clock. A
  \<open>connection\<close> holds what these methods read while one request is handled: the
  request's protocol version, the server's version string and the clock reading, as
  formatted.
\<close>

record connection =
  request_version :: string
  version_string :: string
  date_time_string :: string

definition crlf :: string where
  "crlf = [CHR 0x0D, CHR 0x0A]"

text \<open>\<^verbatim>\<open>"%d" % n\<close>.\<close>

fun decimal :: "nat \<Rightarrow> string" where
  "decimal n =
     (if n < 10 then [''0123456789'' ! n]
      else decimal (n div 10) @ [''0123456789'' ! (n mod 10)])"

declare decimal.simps [simp del]

text \<open>The rows of the table \<^verbatim>\<open>self.responses\<close> for the two codes the handler sends;
  the library's message for a code that is not in its table is the empty string.\<close>

definition responses :: "nat \<Rightarrow> string" where
  "responses code = (if code = 200 then ''OK'' else if code = 404 then ''Not Found'' else '''')"

text \<open>\<^verbatim>\<open>protocol_version\<close> is the class attribute \<open>HTTP/1.0\<close>, which the handler does
  not override.\<close>

definition status_line :: "nat \<Rightarrow> string" where
  "status_line code = ''HTTP/1.0 '' @ decimal code @ '' '' @ responses code @ crlf"

definition header_line :: "string \<Rightarrow> string \<Rightarrow> string" where
  "header_line keyword v = keyword @ '': '' @ v @ crlf"

text \<open>One call, on the pair of the header buffer and the bytes written so far.\<close>

fun transmit :: "connection \<Rightarrow> bytes \<times> bytes \<Rightarrow> effect \<Rightarrow> bytes \<times> bytes" where
  "transmit c (buf, sent) (Send_response code) =
     (if request_version c = ''HTTP/0.9'' then (buf, sent)
      else (buf @ status_line code
                @ header_line ''Server'' (version_string c)
                @ header_line ''Date'' (date_time_string c), sent))"
| "transmit c (buf, sent) (Send_header keyword v) =
     (if request_version c = ''HTTP/0.9'' then (buf, sent)
      else (buf @ header_line keyword v, sent))"
| "transmit c (buf, sent) End_headers =
     (if request_version c = ''HTTP/0.9'' then (buf, sent)
      else ([], sent @ buf @ crlf))"
| "transmit c (buf, sent) (Wfile_write b) = (buf, sent @ b)"
| "transmit c (buf, sent) _ = (buf, sent)"

text \<open>The bytes the client receives for a sequence of calls.\<close>

definition wire :: "connection \<Rightarrow> effect list \<Rightarrow> bytes" where
  "wire c es = snd (foldl (transmit c) ([], []) es)"

text \<open>Two moments on one connection, a second apart.\<close>

definition at_noon :: connection where
  "at_noon = \<lparr>request_version = ''HTTP/1.1'',
              version_string = ''BaseHTTP/0.6 Python/3.11.10'',
              date_time_string = ''Tue, 03 Nov 2026 12:00:00 GMT''\<rparr>"

definition a_second_later :: connection where
  "a_second_later = at_noon\<lparr>date_time_string := ''Tue, 03 Nov 2026 12:00:01 GMT''\<rparr>"

section \<open>Properties\<close>

subsection \<open>The example directory and the parser\<close>

lemma cwd_simps:
  "cwd ''./index.html'' = Some (File ''<html></html>'')"
  "cwd ''./static/app.js'' = Some (File ''console.log(1);'')"
  "cwd ''./static/missing.js'' = None"
  "cwd ''./static/'' = Some Directory"
  "cwd ''./static/../index.html'' = Some (File ''<html></html>'')"
  "cwd ''./static/app.js?v=2'' = None"
  by (simp_all add: cwd_def resolve_def)

lemma traversal_example:
  "startswith ''/static/../index.html'' ''/static/''"
  "''..'' \<in> set (split_on CHR ''/'' ''/static/../index.html'')"
  "resolve ''./static/../index.html'' = [''index.html'']"
  "\<not> under_static ''./static/../index.html''"
  "under_static ''./static/app.js''"
  by (simp_all add: startswith_def under_static_def resolve_def)

lemma example_entries:
  "filesystem no_index ''./index.html'' = None"
  "filesystem locked ''./static/app.js'' = Some Unreadable"
  "filesystem idle ''./static/'' = Some Directory"
  "filesystem idle ''./static/app.js'' = Some (File ''console.log(1);'')"
  "filesystem idle ''./static/missing.js'' = None"
  "filesystem idle ''./index.html'' = Some (File ''<html></html>'')"
  "filesystem shadowed ''./static/app.js'' = Some (File ''console.log(1);'')"
  "filesystem shadowed ''./static/app.js?v=2'' = Some (File ''console.log(0);'')"
  "concurrent racing (filesystem idle) ''./static/app.js'' = None"
  "concurrent quiet fs = fs"
  by (simp_all add: no_index_def locked_def shadowed_def racing_def idle_def quiet_def cwd_simps)

lemma example_targets:
  "startswith ''/static/'' ''/static/''"
  "startswith ''/static/app.js'' ''/static/''"
  "startswith ''/static/missing.js'' ''/static/''"
  "startswith ''/static/app.js?v=2'' ''/static/''"
  "\<not> startswith ''/'' ''/static/''"
  "\<not> startswith ''/anything/else'' ''/static/''"
  "\<not> startswith ''http://['' ''/static/''"
  by (simp_all add: startswith_def)

lemma open_rb_examples:
  "open_rb (filesystem no_index) ''./index.html'' = Inl FileNotFoundError"
  "open_rb (filesystem idle) ''./static/'' = Inl IsADirectoryError"
  "open_rb (filesystem locked) ''./static/app.js'' = Inl PermissionError"
  "open_rb (concurrent racing (filesystem idle)) ''./static/app.js'' = Inl FileNotFoundError"
  by (simp_all add: open_rb_def example_entries)

lemma split_scheme_slash: "split_scheme (CHR ''/'' # u) = ('''', CHR ''/'' # u)"
  by (simp add: split_scheme_def ascii_letters_def)

text \<open>A target that starts with \<open>/static/\<close> has no scheme and no network location,
  so the parser has nothing to reject.\<close>

lemma static_target_parses:
  assumes "startswith p ''/static/''"
  shows "\<exists>r. urlparse pf p = Inr r"
proof -
  from assms obtain t where p: "p = ''/static/'' @ t"
    by (auto simp: startswith_def elim: prefixE)
  have "\<exists>v. urlsplit pf p = Inr v"
    unfolding p urlsplit_def
    by (simp add: c0_control_or_space_def unsafe_url_byte_def split_scheme_slash
        checknetloc_def Let_def split: prod.splits)
  then show ?thesis
    by (auto simp: urlparse_def Let_def split: prod.splits)
qed

lemma urlparse_bad_bracket: "urlparse pf ''http://['' = Inl ValueError"
  by (simp add: urlparse_def urlsplit_def split_scheme_def splitnetloc_def
      c0_control_or_space_def unsafe_url_byte_def ascii_letters_def scheme_chars_def)

lemma urlparse_plain:
  "urlparse pf ''/'' = Inr \<lparr>scheme = '''', netloc = '''', url_path = ''/'', params = '''',
     query = '''', fragment = ''''\<rparr>"
  "urlparse pf ''/anything/else'' = Inr \<lparr>scheme = '''', netloc = '''',
     url_path = ''/anything/else'', params = '''', query = '''', fragment = ''''\<rparr>"
  "urlparse pf ''/static/app.js?v=2'' = Inr \<lparr>scheme = '''', netloc = '''',
     url_path = ''/static/app.js'', params = '''', query = ''v=2'', fragment = ''''\<rparr>"
  by (simp_all add: urlparse_def urlsplit_def split_scheme_slash splitnetloc_def partition_at_def
      c0_control_or_space_def unsafe_url_byte_def checknetloc_def uses_params_def)

subsection \<open>The six paths through the handler\<close>

lemma world_simps [simp]:
  "filesystem (emit es w) = filesystem w"
  "server_address (emit es w) = server_address w"
  "effects (emit es w) = effects w @ es"
  "filesystem (meanwhile pf w) = concurrent pf (filesystem w)"
  "server_address (meanwhile pf w) = server_address w"
  "effects (meanwhile pf w) = effects w"
  by (simp_all add: emit_def meanwhile_def)

lemma path_unparsed:
  "urlparse pf p = Inl e \<Longrightarrow> do_GET pf w p = (Raised e, w)"
  by (simp add: do_GET_def)

lemma path_missing:
  assumes "startswith p ''/static/''" and "filesystem w (''.'' @ p) = None"
  shows "do_GET pf w p =
    (Returned,
     w\<lparr>effects := effects w @
        [Os_path_exists (''.'' @ p), Send_response 404,
         Send_header ''Content-type'' ''text/plain'', End_headers,
         Wfile_write ''Not Found'']\<rparr>)"
proof -
  from static_target_parses [OF assms(1)] obtain r where "urlparse pf p = Inr r" ..
  with assms show ?thesis
    by (simp add: do_GET_def os_path_exists_def emit_def Let_def)
qed

lemma path_found:
  assumes "startswith p ''/static/''" and "filesystem w (''.'' @ p) \<noteq> None"
  shows "do_GET pf w p =
    with_open_write (''.'' @ p)
      (meanwhile pf (emit [Os_path_exists (''.'' @ p), Send_response 200,
                           Send_header ''Content-type'' ''text/javascript'', End_headers] w))"
proof -
  from static_target_parses [OF assms(1)] obtain r where "urlparse pf p = Inr r" ..
  with assms show ?thesis
    by (simp add: do_GET_def os_path_exists_def emit_def Let_def)
qed

lemma path_found_file:
  assumes "startswith p ''/static/''" and "filesystem w (''.'' @ p) \<noteq> None"
      and "concurrent pf (filesystem w) (''.'' @ p) = Some (File b)"
  shows "do_GET pf w p =
    (Returned,
     w\<lparr>filesystem := concurrent pf (filesystem w),
       effects := effects w @
        [Os_path_exists (''.'' @ p), Send_response 200,
         Send_header ''Content-type'' ''text/javascript'', End_headers,
         Open (''.'' @ p) ''rb'', File_read (''.'' @ p), Wfile_write b,
         File_close (''.'' @ p)]\<rparr>)"
  using assms
  by (simp add: path_found with_open_write_def open_rb_def)

lemma path_found_raises:
  assumes "startswith p ''/static/''" and "filesystem w (''.'' @ p) \<noteq> None"
      and "open_rb (concurrent pf (filesystem w)) (''.'' @ p) = Inl e"
  shows "do_GET pf w p =
    (Raised e,
     w\<lparr>filesystem := concurrent pf (filesystem w),
       effects := effects w @
        [Os_path_exists (''.'' @ p), Send_response 200,
         Send_header ''Content-type'' ''text/javascript'', End_headers,
         Open (''.'' @ p) ''rb'']\<rparr>)"
  using assms
  by (simp add: path_found with_open_write_def)

lemma path_index:
  assumes "\<not> startswith p ''/static/''" and "urlparse pf p = Inr r"
  shows "do_GET pf w p =
    with_open_write ''./index.html''
      (emit [Send_response 200, Send_header ''Content-type'' ''text/html'',
             Send_header ''Access-Control-Allow-Origin'' ''null'', End_headers] w)"
  using assms by (simp add: do_GET_def Let_def)

lemma path_index_file:
  assumes "\<not> startswith p ''/static/''" and "urlparse pf p = Inr r"
      and "filesystem w ''./index.html'' = Some (File b)"
  shows "do_GET pf w p =
    (Returned,
     w\<lparr>effects := effects w @
        [Send_response 200, Send_header ''Content-type'' ''text/html'',
         Send_header ''Access-Control-Allow-Origin'' ''null'', End_headers,
         Open ''./index.html'' ''rb'', File_read ''./index.html'', Wfile_write b,
         File_close ''./index.html'']\<rparr>)"
  using assms
  by (simp add: path_index with_open_write_def open_rb_def)

lemma path_index_raises:
  assumes "\<not> startswith p ''/static/''" and "urlparse pf p = Inr r"
      and "open_rb (filesystem w) ''./index.html'' = Inl e"
  shows "do_GET pf w p =
    (Raised e,
     w\<lparr>effects := effects w @
        [Send_response 200, Send_header ''Content-type'' ''text/html'',
         Send_header ''Access-Control-Allow-Origin'' ''null'', End_headers,
         Open ''./index.html'' ''rb'']\<rparr>)"
  using assms
  by (simp add: path_index with_open_write_def)

lemma open_rb_cases:
  obtains (readable) b where "fs path = Some (File b)" | (raises) e where "open_rb fs path = Inl e"
proof (cases "fs path")
  case None
  then show ?thesis using raises [of FileNotFoundError] by (simp add: open_rb_def)
next
  case (Some en)
  then show ?thesis
    using readable raises by (cases en) (simp_all add: open_rb_def)
qed

lemma trace_of:
  "do_GET pf w p = (oc, w') \<Longrightarrow> effects w' = effects w @ tr \<Longrightarrow> trace pf w p = tr"
  by (simp add: trace_def)

text \<open>Every run of the handler is one of the six.\<close>

lemma do_GET_paths [case_names unparsed missing found_file found_raises index_file index_raises]:
  obtains
    (unparsed) e where "urlparse pf p = Inl e"
      and "do_GET pf w p = (Raised e, w)" and "trace pf w p = []"
  | (missing) "startswith p ''/static/''" and "filesystem w (''.'' @ p) = None"
      and "do_GET pf w p =
        (Returned,
         w\<lparr>effects := effects w @
            [Os_path_exists (''.'' @ p), Send_response 404,
             Send_header ''Content-type'' ''text/plain'', End_headers,
             Wfile_write ''Not Found'']\<rparr>)"
      and "trace pf w p =
            [Os_path_exists (''.'' @ p), Send_response 404,
             Send_header ''Content-type'' ''text/plain'', End_headers,
             Wfile_write ''Not Found'']"
  | (found_file) b where "startswith p ''/static/''" and "filesystem w (''.'' @ p) \<noteq> None"
      and "concurrent pf (filesystem w) (''.'' @ p) = Some (File b)"
      and "do_GET pf w p =
        (Returned,
         w\<lparr>filesystem := concurrent pf (filesystem w),
           effects := effects w @
            [Os_path_exists (''.'' @ p), Send_response 200,
             Send_header ''Content-type'' ''text/javascript'', End_headers,
             Open (''.'' @ p) ''rb'', File_read (''.'' @ p), Wfile_write b,
             File_close (''.'' @ p)]\<rparr>)"
      and "trace pf w p =
            [Os_path_exists (''.'' @ p), Send_response 200,
             Send_header ''Content-type'' ''text/javascript'', End_headers,
             Open (''.'' @ p) ''rb'', File_read (''.'' @ p), Wfile_write b,
             File_close (''.'' @ p)]"
  | (found_raises) e where "startswith p ''/static/''" and "filesystem w (''.'' @ p) \<noteq> None"
      and "open_rb (concurrent pf (filesystem w)) (''.'' @ p) = Inl e"
      and "do_GET pf w p =
        (Raised e,
         w\<lparr>filesystem := concurrent pf (filesystem w),
           effects := effects w @
            [Os_path_exists (''.'' @ p), Send_response 200,
             Send_header ''Content-type'' ''text/javascript'', End_headers,
             Open (''.'' @ p) ''rb'']\<rparr>)"
      and "trace pf w p =
            [Os_path_exists (''.'' @ p), Send_response 200,
             Send_header ''Content-type'' ''text/javascript'', End_headers,
             Open (''.'' @ p) ''rb'']"
  | (index_file) r b where "\<not> startswith p ''/static/''" and "urlparse pf p = Inr r"
      and "filesystem w ''./index.html'' = Some (File b)"
      and "do_GET pf w p =
        (Returned,
         w\<lparr>effects := effects w @
            [Send_response 200, Send_header ''Content-type'' ''text/html'',
             Send_header ''Access-Control-Allow-Origin'' ''null'', End_headers,
             Open ''./index.html'' ''rb'', File_read ''./index.html'', Wfile_write b,
             File_close ''./index.html'']\<rparr>)"
      and "trace pf w p =
            [Send_response 200, Send_header ''Content-type'' ''text/html'',
             Send_header ''Access-Control-Allow-Origin'' ''null'', End_headers,
             Open ''./index.html'' ''rb'', File_read ''./index.html'', Wfile_write b,
             File_close ''./index.html'']"
  | (index_raises) r e where "\<not> startswith p ''/static/''" and "urlparse pf p = Inr r"
      and "open_rb (filesystem w) ''./index.html'' = Inl e"
      and "do_GET pf w p =
        (Raised e,
         w\<lparr>effects := effects w @
            [Send_response 200, Send_header ''Content-type'' ''text/html'',
             Send_header ''Access-Control-Allow-Origin'' ''null'', End_headers,
             Open ''./index.html'' ''rb'']\<rparr>)"
      and "trace pf w p =
            [Send_response 200, Send_header ''Content-type'' ''text/html'',
             Send_header ''Access-Control-Allow-Origin'' ''null'', End_headers,
             Open ''./index.html'' ''rb'']"
proof (cases "urlparse pf p")
  case (Inl e)
  then show ?thesis
    using unparsed [of e] by (simp add: path_unparsed trace_def)
next
  case (Inr r)
  show ?thesis
  proof (cases "startswith p ''/static/''")
    case static: True
    show ?thesis
    proof (cases "filesystem w (''.'' @ p)")
      case None
      with static show ?thesis
        using missing path_missing [OF static None, of pf]
        by (simp add: trace_def)
    next
      case (Some en)
      then have ex: "filesystem w (''.'' @ p) \<noteq> None" by simp
      show ?thesis
      proof (cases "concurrent pf (filesystem w)" "''.'' @ p" rule: open_rb_cases)
        case (readable b)
        with static ex show ?thesis
          using found_file [of b] path_found_file [OF static ex readable]
          by (simp add: trace_def)
      next
        case (raises e)
        with static ex show ?thesis
          using found_raises [of e] path_found_raises [OF static ex raises]
          by (simp add: trace_def)
      qed
    qed
  next
    case other: False
    show ?thesis
    proof (cases "filesystem w" "''./index.html''" rule: open_rb_cases)
      case (readable b)
      with other Inr show ?thesis
        using index_file [of r b] path_index_file [OF other Inr readable]
        by (simp add: trace_def)
    next
      case (raises e)
      with other Inr show ?thesis
        using index_raises [of r e] path_index_raises [OF other Inr raises]
        by (simp add: trace_def)
    qed
  qed
qed

text \<open>The outcome and the effects of a request are a function of the platform, the
  path and the files; the rest of the world does not enter.\<close>

lemma response_depends_on_files:
  assumes "filesystem w1 = filesystem w2"
  shows "fst (do_GET pf w1 p) = fst (do_GET pf w2 p)" and "trace pf w1 p = trace pf w2 p"
  using assms
  by (auto simp: do_GET_def trace_def with_open_write_def os_path_exists_def Let_def
      split: sum.splits)

subsection \<open>The bytes of the five responses\<close>

lemma wire_of_trace:
  assumes "request_version c \<noteq> ''HTTP/0.9''"
  shows "wire c [Os_path_exists q, Send_response code, Send_header k v, End_headers,
                 Wfile_write b] =
           (status_line code @ header_line ''Server'' (version_string c))
           @ header_line ''Date'' (date_time_string c)
           @ (header_line k v @ crlf @ b)"
    and "wire c [Os_path_exists q, Send_response code, Send_header k v, End_headers,
                 Open q m, File_read q, Wfile_write b, File_close q] =
           (status_line code @ header_line ''Server'' (version_string c))
           @ header_line ''Date'' (date_time_string c)
           @ (header_line k v @ crlf @ b)"
    and "wire c [Os_path_exists q, Send_response code, Send_header k v, End_headers,
                 Open q m] =
           (status_line code @ header_line ''Server'' (version_string c))
           @ header_line ''Date'' (date_time_string c)
           @ (header_line k v @ crlf)"
    and "wire c [Send_response code, Send_header k v, Send_header k' v', End_headers,
                 Open q m, File_read q, Wfile_write b, File_close q] =
           (status_line code @ header_line ''Server'' (version_string c))
           @ header_line ''Date'' (date_time_string c)
           @ (header_line k v @ header_line k' v' @ crlf @ b)"
    and "wire c [Send_response code, Send_header k v, Send_header k' v', End_headers,
                 Open q m] =
           (status_line code @ header_line ''Server'' (version_string c))
           @ header_line ''Date'' (date_time_string c)
           @ (header_line k v @ header_line k' v' @ crlf)"
  using assms by (simp_all add: wire_def)

lemma header_line_inject: "header_line k d1 = header_line k d2 \<longleftrightarrow> d1 = d2"
  by (simp add: header_line_def)

lemma twice_index:
  "filesystem (snd (do_GET quiet idle ''/'')) = filesystem idle"
  "effects (snd (do_GET quiet idle ''/'')) \<noteq> effects idle"
  "fst (do_GET quiet idle ''/'') = Returned"
  "trace quiet idle ''/'' =
     [Send_response 200, Send_header ''Content-type'' ''text/html'',
      Send_header ''Access-Control-Allow-Origin'' ''null'', End_headers,
      Open ''./index.html'' ''rb'', File_read ''./index.html'',
      Wfile_write ''<html></html>'', File_close ''./index.html'']"
  "trace quiet (snd (do_GET quiet idle ''/'')) ''/'' =
     [Send_response 200, Send_header ''Content-type'' ''text/html'',
      Send_header ''Access-Control-Allow-Origin'' ''null'', End_headers,
      Open ''./index.html'' ''rb'', File_read ''./index.html'',
      Wfile_write ''<html></html>'', File_close ''./index.html'']"
proof -
  have m: "do_GET quiet idle ''/'' =
    (Returned,
     idle\<lparr>effects := effects idle @
        [Send_response 200, Send_header ''Content-type'' ''text/html'',
         Send_header ''Access-Control-Allow-Origin'' ''null'', End_headers,
         Open ''./index.html'' ''rb'', File_read ''./index.html'',
         Wfile_write ''<html></html>'', File_close ''./index.html'']\<rparr>)"
    by (rule path_index_file [OF _ urlparse_plain(1)])
       (simp_all add: example_targets example_entries)
  show same: "filesystem (snd (do_GET quiet idle ''/'')) = filesystem idle"
    and "effects (snd (do_GET quiet idle ''/'')) \<noteq> effects idle"
    and "fst (do_GET quiet idle ''/'') = Returned"
    by (simp_all add: m)
  show first: "trace quiet idle ''/'' =
     [Send_response 200, Send_header ''Content-type'' ''text/html'',
      Send_header ''Access-Control-Allow-Origin'' ''null'', End_headers,
      Open ''./index.html'' ''rb'', File_read ''./index.html'',
      Wfile_write ''<html></html>'', File_close ''./index.html'']"
    by (simp add: trace_of [OF m])
  from response_depends_on_files(2) [OF same, of quiet "''/''"] first
  show "trace quiet (snd (do_GET quiet idle ''/'')) ''/'' =
     [Send_response 200, Send_header ''Content-type'' ''text/html'',
      Send_header ''Access-Control-Allow-Origin'' ''null'', End_headers,
      Open ''./index.html'' ''rb'', File_read ''./index.html'',
      Wfile_write ''<html></html>'', File_close ''./index.html'']"
    by simp
qed

lemma wire_index_example:
  "wire at_noon
     [Send_response 200, Send_header ''Content-type'' ''text/html'',
      Send_header ''Access-Control-Allow-Origin'' ''null'', End_headers,
      Open ''./index.html'' ''rb'', File_read ''./index.html'',
      Wfile_write ''<html></html>'', File_close ''./index.html''] =
   ''HTTP/1.0 200 OK'' @ crlf
   @ ''Server: BaseHTTP/0.6 Python/3.11.10'' @ crlf
   @ ''Date: Tue, 03 Nov 2026 12:00:00 GMT'' @ crlf
   @ ''Content-type: text/html'' @ crlf
   @ ''Access-Control-Allow-Origin: null'' @ crlf
   @ crlf
   @ ''<html></html>''"
  "wire a_second_later
     [Send_response 200, Send_header ''Content-type'' ''text/html'',
      Send_header ''Access-Control-Allow-Origin'' ''null'', End_headers,
      Open ''./index.html'' ''rb'', File_read ''./index.html'',
      Wfile_write ''<html></html>'', File_close ''./index.html''] =
   ''HTTP/1.0 200 OK'' @ crlf
   @ ''Server: BaseHTTP/0.6 Python/3.11.10'' @ crlf
   @ ''Date: Tue, 03 Nov 2026 12:00:01 GMT'' @ crlf
   @ ''Content-type: text/html'' @ crlf
   @ ''Access-Control-Allow-Origin: null'' @ crlf
   @ crlf
   @ ''<html></html>''"
proof -
  have d: "decimal 200 = ''200''" by code_simp
  show "wire at_noon
     [Send_response 200, Send_header ''Content-type'' ''text/html'',
      Send_header ''Access-Control-Allow-Origin'' ''null'', End_headers,
      Open ''./index.html'' ''rb'', File_read ''./index.html'',
      Wfile_write ''<html></html>'', File_close ''./index.html''] =
   ''HTTP/1.0 200 OK'' @ crlf
   @ ''Server: BaseHTTP/0.6 Python/3.11.10'' @ crlf
   @ ''Date: Tue, 03 Nov 2026 12:00:00 GMT'' @ crlf
   @ ''Content-type: text/html'' @ crlf
   @ ''Access-Control-Allow-Origin: null'' @ crlf
   @ crlf
   @ ''<html></html>''"
    by (simp add: wire_def at_noon_def status_line_def header_line_def responses_def d)
  show "wire a_second_later
     [Send_response 200, Send_header ''Content-type'' ''text/html'',
      Send_header ''Access-Control-Allow-Origin'' ''null'', End_headers,
      Open ''./index.html'' ''rb'', File_read ''./index.html'',
      Wfile_write ''<html></html>'', File_close ''./index.html''] =
   ''HTTP/1.0 200 OK'' @ crlf
   @ ''Server: BaseHTTP/0.6 Python/3.11.10'' @ crlf
   @ ''Date: Tue, 03 Nov 2026 12:00:01 GMT'' @ crlf
   @ ''Content-type: text/html'' @ crlf
   @ ''Access-Control-Allow-Origin: null'' @ crlf
   @ crlf
   @ ''<html></html>''"
    by (simp add: wire_def a_second_later_def at_noon_def status_line_def header_line_def
        responses_def d)
qed

section \<open>The claims\<close>

subsection \<open>Serving a static file\<close>

text \<open>
  C1. A GET whose path starts with \<open>/static/\<close>, for which an entry exists at \<open>.\<close>
  followed by the request path and that entry is a readable file, is answered with
  status 200, the header \<open>Content-type: text/javascript\<close> and a body equal to the
  bytes of the file.

  The entry exists when \<^verbatim>\<open>os.path.exists\<close> looks, and is a readable file with
  contents \<open>b\<close> when \<^verbatim>\<open>open\<close> is called; with no other process at work both
  hypotheses say \<open>filesystem w (''.'' @ p) = Some (File b)\<close>.
\<close>

theorem static_file_served:
  assumes "startswith p ''/static/''"
      and "filesystem w (''.'' @ p) \<noteq> None"
      and "concurrent pf (filesystem w) (''.'' @ p) = Some (File b)"
  shows "do_GET pf w p =
           (Returned,
            w\<lparr>filesystem := concurrent pf (filesystem w),
              effects := effects w @
                [Os_path_exists (''.'' @ p),
                 Send_response 200,
                 Send_header ''Content-type'' ''text/javascript'',
                 End_headers,
                 Open (''.'' @ p) ''rb'',
                 File_read (''.'' @ p),
                 Wfile_write b,
                 File_close (''.'' @ p)]\<rparr>)"
  using assms by (rule path_found_file)

theorem static_file_served_witness:
  "startswith ''/static/app.js'' ''/static/''
   \<and> filesystem idle ''./static/app.js'' \<noteq> None
   \<and> concurrent quiet (filesystem idle) ''./static/app.js'' = Some (File ''console.log(1);'')
   \<and> do_GET quiet idle ''/static/app.js'' =
           (Returned,
            idle\<lparr>effects :=
                [Os_path_exists ''./static/app.js'',
                 Send_response 200,
                 Send_header ''Content-type'' ''text/javascript'',
                 End_headers,
                 Open ''./static/app.js'' ''rb'',
                 File_read ''./static/app.js'',
                 Wfile_write ''console.log(1);'',
                 File_close ''./static/app.js'']\<rparr>)"
  using static_file_served [of "''/static/app.js''" idle quiet "''console.log(1);''"]
  by (simp add: startswith_def idle_def quiet_def cwd_simps)

subsection \<open>The entry document\<close>

text \<open>
  C2, as stated: every GET whose path does not start with \<open>/static/\<close> is answered
  with status 200 and the bytes of \<^verbatim>\<open>./index.html\<close>, provided that file exists and
  is readable. It fails at the request line \<^verbatim>\<open>GET http://[ HTTP/1.1\<close>: the target
  does not start with \<open>/static/\<close>, \<^verbatim>\<open>index.html\<close> is there, and
  \<^verbatim>\<open>urlparse\<close> raises \<^verbatim>\<open>ValueError\<close> (an opening bracket without its closing
  one in the network location) on line 7, before anything is sent.
\<close>

theorem index_for_every_other_path_counterexample:
  "\<not> startswith ''http://['' ''/static/''
   \<and> filesystem idle ''./index.html'' = Some (File ''<html></html>'')
   \<and> do_GET quiet idle ''http://['' = (Raised ValueError, idle)
   \<and> trace quiet idle ''http://['' = []"
  by (simp add: startswith_def idle_def cwd_simps urlparse_bad_bracket path_unparsed trace_def)

text \<open>
  C2, amended: every GET whose path does not start with \<open>/static/\<close> and on whose
  target \<^verbatim>\<open>urlparse\<close> returns is answered with status 200, the headers
  \<open>Content-type: text/html\<close> and \<open>Access-Control-Allow-Origin: null\<close>, and a body
  equal to the bytes of \<^verbatim>\<open>./index.html\<close>, provided that file exists and is readable;
  the answer is the same for every such path.
\<close>

theorem index_for_parsed_other_path:
  assumes "\<not> startswith p ''/static/''"
      and "urlparse pf p = Inr r"
      and "filesystem w ''./index.html'' = Some (File b)"
  shows "do_GET pf w p =
           (Returned,
            w\<lparr>effects := effects w @
                [Send_response 200,
                 Send_header ''Content-type'' ''text/html'',
                 Send_header ''Access-Control-Allow-Origin'' ''null'',
                 End_headers,
                 Open ''./index.html'' ''rb'',
                 File_read ''./index.html'',
                 Wfile_write b,
                 File_close ''./index.html'']\<rparr>)
         \<and> (\<forall>q r'. \<not> startswith q ''/static/'' \<longrightarrow> urlparse pf q = Inr r' \<longrightarrow>
                do_GET pf w q = do_GET pf w p)"
  using assms by (simp add: path_index_file)

theorem index_for_parsed_other_path_witness:
  "\<not> startswith ''/anything/else'' ''/static/''
   \<and> urlparse quiet ''/anything/else'' = Inr \<lparr>scheme = '''', netloc = '''',
         url_path = ''/anything/else'', params = '''', query = '''', fragment = ''''\<rparr>
   \<and> filesystem idle ''./index.html'' = Some (File ''<html></html>'')
   \<and> do_GET quiet idle ''/anything/else'' =
           (Returned,
            idle\<lparr>effects :=
                [Send_response 200,
                 Send_header ''Content-type'' ''text/html'',
                 Send_header ''Access-Control-Allow-Origin'' ''null'',
                 End_headers,
                 Open ''./index.html'' ''rb'',
                 File_read ''./index.html'',
                 Wfile_write ''<html></html>'',
                 File_close ''./index.html'']\<rparr>)
   \<and> do_GET quiet idle ''/'' = do_GET quiet idle ''/anything/else''"
proof -
  have a: "\<not> startswith ''/anything/else'' ''/static/''"
    and a': "\<not> startswith ''/'' ''/static/''"
    by (simp_all add: startswith_def)
  have c: "filesystem idle ''./index.html'' = Some (File ''<html></html>'')"
    by (simp add: idle_def cwd_simps)
  note inst = index_for_parsed_other_path [OF a urlparse_plain(2) c, of quiet]
  from inst a' urlparse_plain(1) [of quiet]
  have "do_GET quiet idle ''/'' = do_GET quiet idle ''/anything/else''" by blast
  with inst a c urlparse_plain(2) [of quiet]
  show ?thesis by (simp add: idle_def)
qed

subsection \<open>A static path with nothing behind it\<close>

text \<open>
  C3. A GET whose path starts with \<open>/static/\<close> and for which nothing exists at \<open>.\<close>
  followed by the request path is answered with status 404, the header
  \<open>Content-type: text/plain\<close> and the body \<open>Not Found\<close>. "No file exists" is what
  \<^verbatim>\<open>os.path.exists\<close> tests: no entry of any kind.
\<close>

theorem static_missing_not_found:
  assumes "startswith p ''/static/''"
      and "filesystem w (''.'' @ p) = None"
  shows "do_GET pf w p =
           (Returned,
            w\<lparr>effects := effects w @
                [Os_path_exists (''.'' @ p),
                 Send_response 404,
                 Send_header ''Content-type'' ''text/plain'',
                 End_headers,
                 Wfile_write ''Not Found'']\<rparr>)"
  using assms by (rule path_missing)

theorem static_missing_not_found_witness:
  "startswith ''/static/missing.js'' ''/static/''
   \<and> filesystem idle ''./static/missing.js'' = None
   \<and> do_GET quiet idle ''/static/missing.js'' =
           (Returned,
            idle\<lparr>effects :=
                [Os_path_exists ''./static/missing.js'',
                 Send_response 404,
                 Send_header ''Content-type'' ''text/plain'',
                 End_headers,
                 Wfile_write ''Not Found'']\<rparr>)"
  using static_missing_not_found [of "''/static/missing.js''" idle quiet]
  by (simp add: startswith_def idle_def cwd_simps)

subsection \<open>The path that is consulted\<close>

text \<open>
  C4. For a GET whose path starts with \<open>/static/\<close>, the path handed to the operating
  system is exactly \<open>.\<close> followed by the request path as received, not normalised and
  not checked for traversal; and there is a request path with a \<open>..\<close> segment whose
  consulted path leads out of \<^verbatim>\<open>./static/\<close>.
\<close>

theorem static_path_verbatim:
  assumes "startswith p ''/static/''"
  shows "set (consulted (trace pf w p)) = {''.'' @ p}
       \<and> (\<exists>q. startswith q ''/static/'' \<and> ''..'' \<in> set (split_on CHR ''/'' q)
              \<and> set (consulted (trace pf w q)) = {''.'' @ q}
              \<and> \<not> under_static (''.'' @ q))"
proof -
  have verbatim: "set (consulted (trace pf w q)) = {''.'' @ q}"
    if "startswith q ''/static/''" for q
    by (rule do_GET_paths [of pf q w]) (use that static_target_parses [of q pf] in auto)
  have "startswith ''/static/../index.html'' ''/static/''
      \<and> ''..'' \<in> set (split_on CHR ''/'' ''/static/../index.html'')
      \<and> set (consulted (trace pf w ''/static/../index.html'')) = {''.'' @ ''/static/../index.html''}
      \<and> \<not> under_static (''.'' @ ''/static/../index.html'')"
    using verbatim [of "''/static/../index.html''"] traversal_example by simp
  then have "\<exists>q. startswith q ''/static/'' \<and> ''..'' \<in> set (split_on CHR ''/'' q)
              \<and> set (consulted (trace pf w q)) = {''.'' @ q}
              \<and> \<not> under_static (''.'' @ q)" by (rule exI)
  with verbatim [OF assms] show ?thesis by simp
qed

text \<open>In the example directory, \<^verbatim>\<open>GET /static/../index.html\<close> is answered with the
  bytes of \<^verbatim>\<open>index.html\<close>, a file that is not under \<^verbatim>\<open>static/\<close>.\<close>

theorem static_path_verbatim_witness:
  "startswith ''/static/../index.html'' ''/static/''
   \<and> ''..'' \<in> set (split_on CHR ''/'' ''/static/../index.html'')
   \<and> set (consulted (trace quiet idle ''/static/../index.html'')) = {''./static/../index.html''}
   \<and> resolve ''./static/../index.html'' = [''index.html'']
   \<and> \<not> under_static ''./static/../index.html''
   \<and> bodies (trace quiet idle ''/static/../index.html'') = [''<html></html>'']"
proof -
  have a: "startswith ''/static/../index.html'' ''/static/''" by (simp add: startswith_def)
  have "trace quiet idle ''/static/../index.html'' =
          [Os_path_exists ''./static/../index.html'', Send_response 200,
           Send_header ''Content-type'' ''text/javascript'', End_headers,
           Open ''./static/../index.html'' ''rb'', File_read ''./static/../index.html'',
           Wfile_write ''<html></html>'', File_close ''./static/../index.html'']"
    by (rule trace_of [OF path_found_file [OF a, of idle quiet "''<html></html>''"]])
       (simp_all add: idle_def quiet_def cwd_simps)
  with static_path_verbatim [OF a, of quiet idle] traversal_example
  show ?thesis by simp
qed

subsection \<open>Which failures the client hears of\<close>

text \<open>
  C5. The only failure turned into an error response is a \<open>/static/\<close> path with no
  filesystem entry, answered with 404. Every other failure leaves \<^verbatim>\<open>do_GET\<close> as
  the exception it was: \<^verbatim>\<open>open\<close> on an absent \<^verbatim>\<open>./index.html\<close>, \<^verbatim>\<open>open\<close>
  on a static path that is a directory or may not be read, and the \<^verbatim>\<open>ValueError\<close>
  of \<^verbatim>\<open>urlparse\<close>. An error response is a status other than 200.
\<close>

theorem only_missing_static_is_reported:
  "((\<exists>c \<in> set (status_codes (trace pf w p)). c \<noteq> 200) \<longleftrightarrow>
       startswith p ''/static/'' \<and> filesystem w (''.'' @ p) = None)
   \<and> (startswith p ''/static/'' \<and> filesystem w (''.'' @ p) = None \<longrightarrow>
         fst (do_GET pf w p) = Returned
         \<and> status_codes (trace pf w p) = [404]
         \<and> bodies (trace pf w p) = [''Not Found''])
   \<and> (\<forall>e. urlparse pf p = Inl e \<longrightarrow> do_GET pf w p = (Raised e, w))
   \<and> (\<forall>e r. \<not> startswith p ''/static/'' \<and> urlparse pf p = Inr r
            \<and> open_rb (filesystem w) ''./index.html'' = Inl e \<longrightarrow>
         fst (do_GET pf w p) = Raised e \<and> bodies (trace pf w p) = [])
   \<and> (\<forall>e. startswith p ''/static/'' \<and> filesystem w (''.'' @ p) \<noteq> None
            \<and> open_rb (concurrent pf (filesystem w)) (''.'' @ p) = Inl e \<longrightarrow>
         fst (do_GET pf w p) = Raised e \<and> bodies (trace pf w p) = [])"
proof (intro conjI allI impI)
  show "(\<exists>c \<in> set (status_codes (trace pf w p)). c \<noteq> 200) \<longleftrightarrow>
       startswith p ''/static/'' \<and> filesystem w (''.'' @ p) = None"
    by (rule do_GET_paths [of pf p w]) (use static_target_parses [of p pf] in auto)
next
  assume "startswith p ''/static/'' \<and> filesystem w (''.'' @ p) = None"
  then have m: "do_GET pf w p = (Returned,
     w\<lparr>effects := effects w @
        [Os_path_exists (''.'' @ p), Send_response 404,
         Send_header ''Content-type'' ''text/plain'', End_headers,
         Wfile_write ''Not Found'']\<rparr>)"
    by (simp add: path_missing)
  show "fst (do_GET pf w p) = Returned" by (simp add: m)
  show "status_codes (trace pf w p) = [404]" by (simp add: trace_of [OF m])
  show "bodies (trace pf w p) = [''Not Found'']" by (simp add: trace_of [OF m])
next
  fix e assume "urlparse pf p = Inl e"
  then show "do_GET pf w p = (Raised e, w)" by (rule path_unparsed)
next
  fix e r
  assume "\<not> startswith p ''/static/'' \<and> urlparse pf p = Inr r
            \<and> open_rb (filesystem w) ''./index.html'' = Inl e"
  then have m: "do_GET pf w p =
    (Raised e,
     w\<lparr>effects := effects w @
        [Send_response 200, Send_header ''Content-type'' ''text/html'',
         Send_header ''Access-Control-Allow-Origin'' ''null'', End_headers,
         Open ''./index.html'' ''rb'']\<rparr>)"
    by (simp add: path_index_raises)
  show "fst (do_GET pf w p) = Raised e" by (simp add: m)
  show "bodies (trace pf w p) = []" by (simp add: trace_of [OF m])
next
  fix e
  assume "startswith p ''/static/'' \<and> filesystem w (''.'' @ p) \<noteq> None
            \<and> open_rb (concurrent pf (filesystem w)) (''.'' @ p) = Inl e"
  then have m: "do_GET pf w p =
    (Raised e,
     w\<lparr>filesystem := concurrent pf (filesystem w),
       effects := effects w @
        [Os_path_exists (''.'' @ p), Send_response 200,
         Send_header ''Content-type'' ''text/javascript'', End_headers,
         Open (''.'' @ p) ''rb'']\<rparr>)"
    by (simp add: path_found_raises)
  show "fst (do_GET pf w p) = Raised e" by (simp add: m)
  show "bodies (trace pf w p) = []" by (simp add: trace_of [OF m])
qed

text \<open>
  The five cases, run: a missing static file; a target the parser rejects; no
  \<^verbatim>\<open>index.html\<close>; the directory \<^verbatim>\<open>./static/\<close> itself; an unreadable file.
\<close>

theorem only_missing_static_is_reported_witness:
  "(startswith ''/static/missing.js'' ''/static/'' \<and> filesystem idle ''./static/missing.js'' = None
      \<and> fst (do_GET quiet idle ''/static/missing.js'') = Returned
      \<and> status_codes (trace quiet idle ''/static/missing.js'') = [404]
      \<and> bodies (trace quiet idle ''/static/missing.js'') = [''Not Found''])
   \<and> (urlparse quiet ''http://['' = Inl ValueError
      \<and> do_GET quiet idle ''http://['' = (Raised ValueError, idle))
   \<and> (\<not> startswith ''/'' ''/static/''
      \<and> open_rb (filesystem no_index) ''./index.html'' = Inl FileNotFoundError
      \<and> fst (do_GET quiet no_index ''/'') = Raised FileNotFoundError
      \<and> bodies (trace quiet no_index ''/'') = [])
   \<and> (startswith ''/static/'' ''/static/'' \<and> filesystem idle ''./static/'' \<noteq> None
      \<and> open_rb (concurrent quiet (filesystem idle)) ''./static/'' = Inl IsADirectoryError
      \<and> fst (do_GET quiet idle ''/static/'') = Raised IsADirectoryError
      \<and> bodies (trace quiet idle ''/static/'') = [])
   \<and> (startswith ''/static/app.js'' ''/static/'' \<and> filesystem locked ''./static/app.js'' \<noteq> None
      \<and> open_rb (concurrent quiet (filesystem locked)) ''./static/app.js'' = Inl PermissionError
      \<and> fst (do_GET quiet locked ''/static/app.js'') = Raised PermissionError
      \<and> bodies (trace quiet locked ''/static/app.js'') = [])"
  using only_missing_static_is_reported [of quiet idle "''/static/missing.js''"]
        only_missing_static_is_reported [of quiet idle "''http://[''"]
        only_missing_static_is_reported [of quiet no_index "''/''"]
        only_missing_static_is_reported [of quiet idle "''/static/''"]
        only_missing_static_is_reported [of quiet locked "''/static/app.js''"]
        urlparse_plain(1) [of quiet] urlparse_bad_bracket [of quiet]
  by (simp add: example_targets example_entries open_rb_examples)

subsection \<open>The status is sent before the file is opened\<close>

text \<open>
  C6. In both success branches the status line and all headers are sent before the file
  is opened: on the static branch 200 and the \<open>Content-type\<close> header precede
  \<^verbatim>\<open>open('.' + path)\<close>, on the other branch 200 and both headers precede the
  \<^verbatim>\<open>open\<close> of \<^verbatim>\<open>./index.html\<close>. So when the existence check succeeds and the
  open then fails, the client has its 200 already and no error response follows: the log
  ends at the failed \<^verbatim>\<open>open\<close>. The check and the read are two system calls, not
  one atomic step: there is a run in which the file is there at the check and gone at
  the open.
\<close>

theorem headers_precede_open:
  "(startswith p ''/static/'' \<and> filesystem w (''.'' @ p) \<noteq> None \<longrightarrow>
      (\<exists>rest. trace pf w p =
         [Os_path_exists (''.'' @ p),
          Send_response 200,
          Send_header ''Content-type'' ''text/javascript'',
          End_headers,
          Open (''.'' @ p) ''rb''] @ rest))
   \<and> (\<forall>r. \<not> startswith p ''/static/'' \<and> urlparse pf p = Inr r \<longrightarrow>
      (\<exists>rest. trace pf w p =
         [Send_response 200,
          Send_header ''Content-type'' ''text/html'',
          Send_header ''Access-Control-Allow-Origin'' ''null'',
          End_headers,
          Open ''./index.html'' ''rb''] @ rest))
   \<and> (\<forall>e. startswith p ''/static/'' \<and> filesystem w (''.'' @ p) \<noteq> None
          \<and> open_rb (concurrent pf (filesystem w)) (''.'' @ p) = Inl e \<longrightarrow>
        fst (do_GET pf w p) = Raised e
        \<and> trace pf w p =
            [Os_path_exists (''.'' @ p),
             Send_response 200,
             Send_header ''Content-type'' ''text/javascript'',
             End_headers,
             Open (''.'' @ p) ''rb''])
   \<and> (\<exists>pf' w' q b. startswith q ''/static/''
          \<and> filesystem w' (''.'' @ q) = Some (File b)
          \<and> fst (do_GET pf' w' q) = Raised FileNotFoundError
          \<and> status_codes (trace pf' w' q) = [200]
          \<and> bodies (trace pf' w' q) = [])"
proof (intro conjI allI impI)
  assume found: "startswith p ''/static/'' \<and> filesystem w (''.'' @ p) \<noteq> None"
  show "\<exists>rest. trace pf w p =
         [Os_path_exists (''.'' @ p), Send_response 200,
          Send_header ''Content-type'' ''text/javascript'', End_headers,
          Open (''.'' @ p) ''rb''] @ rest"
    by (rule do_GET_paths [of pf p w]) (use found static_target_parses [of p pf] in auto)
next
  fix r assume other: "\<not> startswith p ''/static/'' \<and> urlparse pf p = Inr r"
  show "\<exists>rest. trace pf w p =
         [Send_response 200, Send_header ''Content-type'' ''text/html'',
          Send_header ''Access-Control-Allow-Origin'' ''null'', End_headers,
          Open ''./index.html'' ''rb''] @ rest"
    by (rule do_GET_paths [of pf p w]) (use other in auto)
next
  fix e
  assume "startswith p ''/static/'' \<and> filesystem w (''.'' @ p) \<noteq> None
          \<and> open_rb (concurrent pf (filesystem w)) (''.'' @ p) = Inl e"
  then have m: "do_GET pf w p =
    (Raised e,
     w\<lparr>filesystem := concurrent pf (filesystem w),
       effects := effects w @
        [Os_path_exists (''.'' @ p), Send_response 200,
         Send_header ''Content-type'' ''text/javascript'', End_headers,
         Open (''.'' @ p) ''rb'']\<rparr>)"
    by (simp add: path_found_raises)
  show "fst (do_GET pf w p) = Raised e" by (simp add: m)
  show "trace pf w p =
            [Os_path_exists (''.'' @ p), Send_response 200,
             Send_header ''Content-type'' ''text/javascript'', End_headers,
             Open (''.'' @ p) ''rb'']"
    by (simp add: trace_of [OF m])
next
  have m: "do_GET racing idle ''/static/app.js'' =
    (Raised FileNotFoundError,
     idle\<lparr>filesystem := concurrent racing (filesystem idle),
       effects := effects idle @
        [Os_path_exists (''.'' @ ''/static/app.js''), Send_response 200,
         Send_header ''Content-type'' ''text/javascript'', End_headers,
         Open (''.'' @ ''/static/app.js'') ''rb'']\<rparr>)"
    by (rule path_found_raises) (simp_all add: example_targets example_entries open_rb_examples)
  have "startswith ''/static/app.js'' ''/static/''
          \<and> filesystem idle (''.'' @ ''/static/app.js'') = Some (File ''console.log(1);'')
          \<and> fst (do_GET racing idle ''/static/app.js'') = Raised FileNotFoundError
          \<and> status_codes (trace racing idle ''/static/app.js'') = [200]
          \<and> bodies (trace racing idle ''/static/app.js'') = []"
    by (simp add: example_targets example_entries m trace_of [OF m])
  then show "\<exists>pf' w' q b. startswith q ''/static/''
          \<and> filesystem w' (''.'' @ q) = Some (File b)
          \<and> fst (do_GET pf' w' q) = Raised FileNotFoundError
          \<and> status_codes (trace pf' w' q) = [200]
          \<and> bodies (trace pf' w' q) = []"
    by blast
qed

text \<open>
  Run: the directory \<^verbatim>\<open>./static/\<close> passes the check and cannot be opened; the
  file \<^verbatim>\<open>static/app.js\<close> is removed by another process after the check; without
  \<^verbatim>\<open>index.html\<close> the other branch still sends its 200 first.
\<close>

theorem headers_precede_open_witness:
  "(startswith ''/static/'' ''/static/'' \<and> filesystem idle ''./static/'' \<noteq> None
      \<and> open_rb (filesystem idle) ''./static/'' = Inl IsADirectoryError
      \<and> fst (do_GET quiet idle ''/static/'') = Raised IsADirectoryError
      \<and> trace quiet idle ''/static/'' =
            [Os_path_exists ''./static/'',
             Send_response 200,
             Send_header ''Content-type'' ''text/javascript'',
             End_headers,
             Open ''./static/'' ''rb''])
   \<and> (startswith ''/static/app.js'' ''/static/''
      \<and> filesystem idle ''./static/app.js'' = Some (File ''console.log(1);'')
      \<and> open_rb (concurrent racing (filesystem idle)) ''./static/app.js'' = Inl FileNotFoundError
      \<and> fst (do_GET racing idle ''/static/app.js'') = Raised FileNotFoundError
      \<and> trace racing idle ''/static/app.js'' =
            [Os_path_exists ''./static/app.js'',
             Send_response 200,
             Send_header ''Content-type'' ''text/javascript'',
             End_headers,
             Open ''./static/app.js'' ''rb''])
   \<and> (\<not> startswith ''/'' ''/static/''
      \<and> take 5 (trace quiet no_index ''/'') =
         [Send_response 200,
          Send_header ''Content-type'' ''text/html'',
          Send_header ''Access-Control-Allow-Origin'' ''null'',
          End_headers,
          Open ''./index.html'' ''rb''])"
  using headers_precede_open [of "''/static/''" idle quiet]
        headers_precede_open [of "''/static/app.js''" idle racing]
        headers_precede_open [of "''/''" no_index quiet]
        urlparse_plain(1) [of quiet]
  by (auto simp add: example_targets example_entries open_rb_examples)

subsection \<open>A query string stays in the path\<close>

text \<open>
  C7, as stated: the result of \<^verbatim>\<open>urlparse\<close> is never used, the dispatch and the
  filesystem path take \<^verbatim>\<open>self.path\<close> as it came, so every GET of a \<open>/static/\<close>
  path with a query string, such as \<open>/static/app.js?v=2\<close>, is answered with 404 even
  when \<^verbatim>\<open>./static/app.js\<close> exists. The last part fails in a directory that holds,
  next to \<^verbatim>\<open>app.js\<close>, a file whose name is \<open>app.js?v=2\<close>: that file is found
  and served with status 200.
\<close>

theorem query_string_not_found_counterexample:
  "startswith ''/static/app.js?v=2'' ''/static/''
   \<and> filesystem shadowed ''./static/app.js'' = Some (File ''console.log(1);'')
   \<and> do_GET quiet shadowed ''/static/app.js?v=2'' =
        (Returned,
         shadowed\<lparr>effects :=
            [Os_path_exists ''./static/app.js?v=2'',
             Send_response 200,
             Send_header ''Content-type'' ''text/javascript'',
             End_headers,
             Open ''./static/app.js?v=2'' ''rb'',
             File_read ''./static/app.js?v=2'',
             Wfile_write ''console.log(0);'',
             File_close ''./static/app.js?v=2'']\<rparr>)"
proof -
  have "do_GET quiet shadowed ''/static/app.js?v=2'' =
    (Returned,
     shadowed\<lparr>filesystem := concurrent quiet (filesystem shadowed),
       effects := effects shadowed @
        [Os_path_exists (''.'' @ ''/static/app.js?v=2''), Send_response 200,
         Send_header ''Content-type'' ''text/javascript'', End_headers,
         Open (''.'' @ ''/static/app.js?v=2'') ''rb'', File_read (''.'' @ ''/static/app.js?v=2''),
         Wfile_write ''console.log(0);'', File_close (''.'' @ ''/static/app.js?v=2'')]\<rparr>)"
    by (rule path_found_file) (simp_all add: example_targets example_entries)
  moreover have "effects shadowed = []"
    by (simp add: shadowed_def idle_def)
  ultimately show ?thesis
    by (simp add: example_targets example_entries)
qed

text \<open>
  C7, amended: the query string is part of the path that is consulted, and the request
  is answered with 404 whenever no entry exists under that literal path, query string
  included. Nothing is assumed about the path without the query string: the answer is
  404 whether or not \<^verbatim>\<open>./static/app.js\<close> exists.
\<close>

theorem query_string_stays_in_path:
  assumes "filesystem w (''./static/'' @ name @ ''?'' @ q) = None"
  shows "do_GET pf w (''/static/'' @ name @ ''?'' @ q) =
           (Returned,
            w\<lparr>effects := effects w @
                [Os_path_exists (''./static/'' @ name @ ''?'' @ q),
                 Send_response 404,
                 Send_header ''Content-type'' ''text/plain'',
                 End_headers,
                 Wfile_write ''Not Found'']\<rparr>)
         \<and> set (consulted (trace pf w (''/static/'' @ name @ ''?'' @ q)))
             = {''./static/'' @ name @ ''?'' @ q}"
proof -
  let ?p = "''/static/'' @ name @ ''?'' @ q"
  have st: "startswith ?p ''/static/''" by (simp add: startswith_def)
  have none: "filesystem w (''.'' @ ?p) = None" using assms by simp
  have m: "do_GET pf w ?p =
    (Returned,
     w\<lparr>effects := effects w @
        [Os_path_exists (''.'' @ ?p), Send_response 404,
         Send_header ''Content-type'' ''text/plain'', End_headers,
         Wfile_write ''Not Found'']\<rparr>)"
    using st none by (rule path_missing)
  from m trace_of [OF m] show ?thesis by simp
qed

text \<open>
  In the example directory \<^verbatim>\<open>static/app.js\<close> exists, \<^verbatim>\<open>urlparse\<close> splits
  the target into the path \<open>/static/app.js\<close> and the query \<open>v=2\<close>, and the handler
  still asks for \<^verbatim>\<open>./static/app.js?v=2\<close> and answers 404.
\<close>

theorem query_string_stays_in_path_witness:
  "filesystem idle ''./static/app.js?v=2'' = None
   \<and> filesystem idle ''./static/app.js'' = Some (File ''console.log(1);'')
   \<and> urlparse quiet ''/static/app.js?v=2'' = Inr \<lparr>scheme = '''', netloc = '''',
         url_path = ''/static/app.js'', params = '''', query = ''v=2'', fragment = ''''\<rparr>
   \<and> do_GET quiet idle ''/static/app.js?v=2'' =
           (Returned,
            idle\<lparr>effects :=
                [Os_path_exists ''./static/app.js?v=2'',
                 Send_response 404,
                 Send_header ''Content-type'' ''text/plain'',
                 End_headers,
                 Wfile_write ''Not Found'']\<rparr>)
   \<and> set (consulted (trace quiet idle ''/static/app.js?v=2'')) = {''./static/app.js?v=2''}"
proof -
  have "filesystem idle (''./static/'' @ ''app.js'' @ ''?'' @ ''v=2'') = None"
    by (simp add: idle_def cwd_simps)
  from query_string_stays_in_path [OF this, of quiet]
  show ?thesis
    by (simp add: example_entries urlparse_plain idle_def cwd_simps)
qed

subsection \<open>One status, and a body when the handler returns\<close>

text \<open>
  C8, as stated: on every execution path \<^verbatim>\<open>send_response\<close> is called exactly once,
  \<^verbatim>\<open>end_headers\<close> exactly once after the headers, and exactly one body write
  follows. It fails where a call raises: without \<^verbatim>\<open>index.html\<close>, \<^verbatim>\<open>GET /\<close>
  sends 200 and the headers and then no body; on the target \<open>http://[\<close> nothing is
  sent at all.
\<close>

theorem one_response_one_body_counterexample:
  "fst (do_GET quiet no_index ''/'') = Raised FileNotFoundError
   \<and> status_codes (trace quiet no_index ''/'') = [200]
   \<and> bodies (trace quiet no_index ''/'') = []
   \<and> fst (do_GET quiet idle ''http://['') = Raised ValueError
   \<and> status_codes (trace quiet idle ''http://['') = []
   \<and> bodies (trace quiet idle ''http://['') = []"
proof -
  have m: "do_GET quiet no_index ''/'' =
    (Raised FileNotFoundError,
     no_index\<lparr>effects := effects no_index @
        [Send_response 200, Send_header ''Content-type'' ''text/html'',
         Send_header ''Access-Control-Allow-Origin'' ''null'', End_headers,
         Open ''./index.html'' ''rb'']\<rparr>)"
    by (rule path_index_raises [OF _ urlparse_plain(1)])
       (simp_all add: example_targets open_rb_examples)
  have n: "do_GET quiet idle ''http://['' = (Raised ValueError, idle)"
    by (rule path_unparsed [OF urlparse_bad_bracket])
  show ?thesis
    by (simp add: m trace_of [OF m] n trace_of [OF n, of "[]"])
qed

text \<open>
  C8, amended: on every execution path on which \<^verbatim>\<open>urlparse\<close> returns,
  \<^verbatim>\<open>send_response\<close> is called exactly once, then the headers, then
  \<^verbatim>\<open>end_headers\<close> exactly once, and after it the body writes and nothing else goes
  to the client: exactly one body write when the handler returns, none when \<^verbatim>\<open>open\<close>
  raises. When \<^verbatim>\<open>urlparse\<close> raises, nothing is sent.
\<close>

theorem one_status_at_most_one_body:
  "(\<forall>r. urlparse pf p = Inr r \<longrightarrow>
      (\<exists>c hs. filter to_client (trace pf w p) =
          Send_response c # map (\<lambda>(k, v). Send_header k v) hs
            @ End_headers # map Wfile_write (bodies (trace pf w p)))
      \<and> length (status_codes (trace pf w p)) = 1
      \<and> length (bodies (trace pf w p)) = (if fst (do_GET pf w p) = Returned then 1 else 0))
   \<and> (\<forall>e. urlparse pf p = Inl e \<longrightarrow> fst (do_GET pf w p) = Raised e \<and> trace pf w p = [])"
proof (intro conjI allI impI)
  fix r assume parsed: "urlparse pf p = Inr r"
  show "\<exists>c hs. filter to_client (trace pf w p) =
          Send_response c # map (\<lambda>(k, v). Send_header k v) hs
            @ End_headers # map Wfile_write (bodies (trace pf w p))"
  proof (rule do_GET_paths [of pf p w])
    fix e assume "urlparse pf p = Inl e"
    with parsed show ?thesis by simp
  next
    assume "trace pf w p =
            [Os_path_exists (''.'' @ p), Send_response 404,
             Send_header ''Content-type'' ''text/plain'', End_headers,
             Wfile_write ''Not Found'']"
    then have "filter to_client (trace pf w p) =
          Send_response 404 # map (\<lambda>(k, v). Send_header k v) [(''Content-type'', ''text/plain'')]
            @ End_headers # map Wfile_write (bodies (trace pf w p))" by simp
    then show ?thesis by blast
  next
    fix b assume "trace pf w p =
            [Os_path_exists (''.'' @ p), Send_response 200,
             Send_header ''Content-type'' ''text/javascript'', End_headers,
             Open (''.'' @ p) ''rb'', File_read (''.'' @ p), Wfile_write b,
             File_close (''.'' @ p)]"
    then have "filter to_client (trace pf w p) =
          Send_response 200 # map (\<lambda>(k, v). Send_header k v) [(''Content-type'', ''text/javascript'')]
            @ End_headers # map Wfile_write (bodies (trace pf w p))" by simp
    then show ?thesis by blast
  next
    assume "trace pf w p =
            [Os_path_exists (''.'' @ p), Send_response 200,
             Send_header ''Content-type'' ''text/javascript'', End_headers,
             Open (''.'' @ p) ''rb'']"
    then have "filter to_client (trace pf w p) =
          Send_response 200 # map (\<lambda>(k, v). Send_header k v) [(''Content-type'', ''text/javascript'')]
            @ End_headers # map Wfile_write (bodies (trace pf w p))" by simp
    then show ?thesis by blast
  next
    fix b assume "trace pf w p =
            [Send_response 200, Send_header ''Content-type'' ''text/html'',
             Send_header ''Access-Control-Allow-Origin'' ''null'', End_headers,
             Open ''./index.html'' ''rb'', File_read ''./index.html'', Wfile_write b,
             File_close ''./index.html'']"
    then have "filter to_client (trace pf w p) =
          Send_response 200 # map (\<lambda>(k, v). Send_header k v)
             [(''Content-type'', ''text/html''), (''Access-Control-Allow-Origin'', ''null'')]
            @ End_headers # map Wfile_write (bodies (trace pf w p))" by simp
    then show ?thesis by blast
  next
    assume "trace pf w p =
            [Send_response 200, Send_header ''Content-type'' ''text/html'',
             Send_header ''Access-Control-Allow-Origin'' ''null'', End_headers,
             Open ''./index.html'' ''rb'']"
    then have "filter to_client (trace pf w p) =
          Send_response 200 # map (\<lambda>(k, v). Send_header k v)
             [(''Content-type'', ''text/html''), (''Access-Control-Allow-Origin'', ''null'')]
            @ End_headers # map Wfile_write (bodies (trace pf w p))" by simp
    then show ?thesis by blast
  qed
  show "length (status_codes (trace pf w p)) = 1"
    by (rule do_GET_paths [of pf p w]) (use parsed in auto)
  show "length (bodies (trace pf w p)) = (if fst (do_GET pf w p) = Returned then 1 else 0)"
    by (rule do_GET_paths [of pf p w]) (use parsed in auto)
next
  fix e assume "urlparse pf p = Inl e"
  then have n: "do_GET pf w p = (Raised e, w)" by (rule path_unparsed)
  show "fst (do_GET pf w p) = Raised e" by (simp add: n)
  show "trace pf w p = []" by (simp add: trace_of [OF n])
qed

text \<open>Run: the entry document served; the entry document missing; a rejected target.\<close>

theorem one_status_at_most_one_body_witness:
  "(urlparse quiet ''/'' = Inr \<lparr>scheme = '''', netloc = '''', url_path = ''/'', params = '''',
        query = '''', fragment = ''''\<rparr>
      \<and> fst (do_GET quiet idle ''/'') = Returned
      \<and> filter to_client (trace quiet idle ''/'') =
           [Send_response 200,
            Send_header ''Content-type'' ''text/html'',
            Send_header ''Access-Control-Allow-Origin'' ''null'',
            End_headers,
            Wfile_write ''<html></html>'']
      \<and> length (status_codes (trace quiet idle ''/'')) = 1
      \<and> length (bodies (trace quiet idle ''/'')) = 1)
   \<and> (fst (do_GET quiet no_index ''/'') = Raised FileNotFoundError
      \<and> length (status_codes (trace quiet no_index ''/'')) = 1
      \<and> length (bodies (trace quiet no_index ''/'')) = 0)
   \<and> (urlparse quiet ''http://['' = Inl ValueError
      \<and> fst (do_GET quiet idle ''http://['') = Raised ValueError
      \<and> trace quiet idle ''http://['' = [])"
proof -
  have m: "do_GET quiet idle ''/'' =
    (Returned,
     idle\<lparr>effects := effects idle @
        [Send_response 200, Send_header ''Content-type'' ''text/html'',
         Send_header ''Access-Control-Allow-Origin'' ''null'', End_headers,
         Open ''./index.html'' ''rb'', File_read ''./index.html'',
         Wfile_write ''<html></html>'', File_close ''./index.html'']\<rparr>)"
    by (rule path_index_file [OF _ urlparse_plain(1)])
       (simp_all add: example_targets example_entries)
  have n: "do_GET quiet no_index ''/'' =
    (Raised FileNotFoundError,
     no_index\<lparr>effects := effects no_index @
        [Send_response 200, Send_header ''Content-type'' ''text/html'',
         Send_header ''Access-Control-Allow-Origin'' ''null'', End_headers,
         Open ''./index.html'' ''rb'']\<rparr>)"
    by (rule path_index_raises [OF _ urlparse_plain(1)])
       (simp_all add: example_targets open_rb_examples)
  from one_status_at_most_one_body [of quiet "''/''" idle]
       one_status_at_most_one_body [of quiet "''/''" no_index]
       one_status_at_most_one_body [of quiet "''http://[''" idle]
  show ?thesis
    by (simp add: urlparse_plain urlparse_bad_bracket m n trace_of [OF m])
qed

subsection \<open>The same files give the same response, up to the date\<close>

text \<open>
  C9, as stated: the handler is deterministic in the request path and the filesystem
  state, so that two executions against identical filesystem contents produce
  byte-identical responses. It fails on the wire: \<^verbatim>\<open>send_response\<close> stamps every
  response with a \<^verbatim>\<open>Date\<close> header read from the clock. \<^verbatim>\<open>GET /\<close> at noon and
  again a second later, the files untouched in between, is answered with two different
  byte strings.
\<close>

theorem byte_identical_responses_counterexample:
  "filesystem (snd (do_GET quiet idle ''/'')) = filesystem idle
   \<and> wire at_noon (trace quiet idle ''/'') =
       ''HTTP/1.0 200 OK'' @ crlf
       @ ''Server: BaseHTTP/0.6 Python/3.11.10'' @ crlf
       @ ''Date: Tue, 03 Nov 2026 12:00:00 GMT'' @ crlf
       @ ''Content-type: text/html'' @ crlf
       @ ''Access-Control-Allow-Origin: null'' @ crlf
       @ crlf
       @ ''<html></html>''
   \<and> wire a_second_later (trace quiet (snd (do_GET quiet idle ''/'')) ''/'') =
       ''HTTP/1.0 200 OK'' @ crlf
       @ ''Server: BaseHTTP/0.6 Python/3.11.10'' @ crlf
       @ ''Date: Tue, 03 Nov 2026 12:00:01 GMT'' @ crlf
       @ ''Content-type: text/html'' @ crlf
       @ ''Access-Control-Allow-Origin: null'' @ crlf
       @ crlf
       @ ''<html></html>''
   \<and> wire at_noon (trace quiet idle ''/'')
       \<noteq> wire a_second_later (trace quiet (snd (do_GET quiet idle ''/'')) ''/'')"
  by (simp add: twice_index wire_index_example)

text \<open>
  C9, amended: the handler is deterministic in the request path, the filesystem state
  and the clock reading that \<^verbatim>\<open>send_response\<close> stamps. Two executions against
  identical filesystem contents, whatever else differs between the two worlds, end the
  same way and make the same calls with the same arguments (status, headers, body), so
  their responses are byte-identical whenever the stamp is the same. For a response that
  has a status line (\<^verbatim>\<open>urlparse\<close> returned and the request is not HTTP/0.9) the two
  byte strings are equal exactly when the stamps are, and otherwise differ in the
  \<^verbatim>\<open>Date\<close> header line and nowhere else.
\<close>

theorem same_files_same_response_but_date:
  assumes "filesystem w1 = filesystem w2"
  shows "fst (do_GET pf w1 p) = fst (do_GET pf w2 p)
       \<and> trace pf w1 p = trace pf w2 p
       \<and> (\<forall>c. wire c (trace pf w1 p) = wire c (trace pf w2 p))
       \<and> (\<forall>c r. urlparse pf p = Inr r \<and> request_version c \<noteq> ''HTTP/0.9'' \<longrightarrow>
            (\<exists>pre post. \<forall>d.
                wire (c\<lparr>date_time_string := d\<rparr>) (trace pf w1 p)
                  = pre @ header_line ''Date'' d @ post
              \<and> wire (c\<lparr>date_time_string := d\<rparr>) (trace pf w2 p)
                  = pre @ header_line ''Date'' d @ post))
       \<and> (\<forall>c r d1 d2. urlparse pf p = Inr r \<and> request_version c \<noteq> ''HTTP/0.9'' \<longrightarrow>
            (wire (c\<lparr>date_time_string := d1\<rparr>) (trace pf w1 p)
               = wire (c\<lparr>date_time_string := d2\<rparr>) (trace pf w2 p)
             \<longleftrightarrow> d1 = d2))"
proof -
  have calls: "fst (do_GET pf w1 p) = fst (do_GET pf w2 p)" "trace pf w1 p = trace pf w2 p"
    using assms by (rule response_depends_on_files)+
  have stamped: "\<exists>pre post. \<forall>d.
      wire (c\<lparr>date_time_string := d\<rparr>) (trace pf w1 p) = pre @ header_line ''Date'' d @ post"
    if parsed: "urlparse pf p = Inr r" and v: "request_version c \<noteq> ''HTTP/0.9''" for c r
  proof (rule do_GET_paths [of pf p w1])
    fix e assume "urlparse pf p = Inl e"
    with parsed show ?thesis by simp
  next
    assume "trace pf w1 p =
            [Os_path_exists (''.'' @ p), Send_response 404,
             Send_header ''Content-type'' ''text/plain'', End_headers,
             Wfile_write ''Not Found'']"
    with v wire_of_trace(1) [of "c\<lparr>date_time_string := d\<rparr>" for d]
    have "\<forall>d. wire (c\<lparr>date_time_string := d\<rparr>) (trace pf w1 p) =
      (status_line 404 @ header_line ''Server'' (version_string c))
      @ header_line ''Date'' d
      @ (header_line ''Content-type'' ''text/plain'' @ crlf @ ''Not Found'')"
      by simp
    then show ?thesis by blast
  next
    fix b assume "trace pf w1 p =
            [Os_path_exists (''.'' @ p), Send_response 200,
             Send_header ''Content-type'' ''text/javascript'', End_headers,
             Open (''.'' @ p) ''rb'', File_read (''.'' @ p), Wfile_write b,
             File_close (''.'' @ p)]"
    with v wire_of_trace(2) [of "c\<lparr>date_time_string := d\<rparr>" for d]
    have "\<forall>d. wire (c\<lparr>date_time_string := d\<rparr>) (trace pf w1 p) =
      (status_line 200 @ header_line ''Server'' (version_string c))
      @ header_line ''Date'' d
      @ (header_line ''Content-type'' ''text/javascript'' @ crlf @ b)"
      by simp
    then show ?thesis by blast
  next
    assume "trace pf w1 p =
            [Os_path_exists (''.'' @ p), Send_response 200,
             Send_header ''Content-type'' ''text/javascript'', End_headers,
             Open (''.'' @ p) ''rb'']"
    with v wire_of_trace(3) [of "c\<lparr>date_time_string := d\<rparr>" for d]
    have "\<forall>d. wire (c\<lparr>date_time_string := d\<rparr>) (trace pf w1 p) =
      (status_line 200 @ header_line ''Server'' (version_string c))
      @ header_line ''Date'' d
      @ (header_line ''Content-type'' ''text/javascript'' @ crlf)"
      by simp
    then show ?thesis by blast
  next
    fix b assume "trace pf w1 p =
            [Send_response 200, Send_header ''Content-type'' ''text/html'',
             Send_header ''Access-Control-Allow-Origin'' ''null'', End_headers,
             Open ''./index.html'' ''rb'', File_read ''./index.html'', Wfile_write b,
             File_close ''./index.html'']"
    with v wire_of_trace(4) [of "c\<lparr>date_time_string := d\<rparr>" for d]
    have "\<forall>d. wire (c\<lparr>date_time_string := d\<rparr>) (trace pf w1 p) =
      (status_line 200 @ header_line ''Server'' (version_string c))
      @ header_line ''Date'' d
      @ (header_line ''Content-type'' ''text/html''
         @ header_line ''Access-Control-Allow-Origin'' ''null'' @ crlf @ b)"
      by simp
    then show ?thesis by blast
  next
    assume "trace pf w1 p =
            [Send_response 200, Send_header ''Content-type'' ''text/html'',
             Send_header ''Access-Control-Allow-Origin'' ''null'', End_headers,
             Open ''./index.html'' ''rb'']"
    with v wire_of_trace(5) [of "c\<lparr>date_time_string := d\<rparr>" for d]
    have "\<forall>d. wire (c\<lparr>date_time_string := d\<rparr>) (trace pf w1 p) =
      (status_line 200 @ header_line ''Server'' (version_string c))
      @ header_line ''Date'' d
      @ (header_line ''Content-type'' ''text/html''
         @ header_line ''Access-Control-Allow-Origin'' ''null'' @ crlf)"
      by simp
    then show ?thesis by blast
  qed
  have differ: "wire (c\<lparr>date_time_string := d1\<rparr>) (trace pf w1 p)
               = wire (c\<lparr>date_time_string := d2\<rparr>) (trace pf w2 p) \<longleftrightarrow> d1 = d2"
    if "urlparse pf p = Inr r" and "request_version c \<noteq> ''HTTP/0.9''" for c r d1 d2
  proof -
    from stamped [OF that] obtain pre post where
      "\<forall>d. wire (c\<lparr>date_time_string := d\<rparr>) (trace pf w1 p) = pre @ header_line ''Date'' d @ post"
      by blast
    then show ?thesis
      by (simp add: calls(2) [symmetric] header_line_inject)
  qed
  show ?thesis
  proof (intro conjI allI impI)
    show "fst (do_GET pf w1 p) = fst (do_GET pf w2 p)" by (rule calls(1))
    show "trace pf w1 p = trace pf w2 p" by (rule calls(2))
    show "wire c (trace pf w1 p) = wire c (trace pf w2 p)" for c
      by (simp only: calls(2))
  next
    fix c :: connection and r
    assume h: "urlparse pf p = Inr r \<and> request_version c \<noteq> ''HTTP/0.9''"
    then have "\<exists>pre post. \<forall>d.
      wire (c\<lparr>date_time_string := d\<rparr>) (trace pf w1 p) = pre @ header_line ''Date'' d @ post"
      using stamped [of r c] by simp
    then show "\<exists>pre post. \<forall>d.
                wire (c\<lparr>date_time_string := d\<rparr>) (trace pf w1 p)
                  = pre @ header_line ''Date'' d @ post
              \<and> wire (c\<lparr>date_time_string := d\<rparr>) (trace pf w2 p)
                  = pre @ header_line ''Date'' d @ post"
      by (simp only: calls(2) [symmetric] conj_absorb)
  next
    fix c :: connection and r d1 d2
    assume "urlparse pf p = Inr r \<and> request_version c \<noteq> ''HTTP/0.9''"
    then show "wire (c\<lparr>date_time_string := d1\<rparr>) (trace pf w1 p)
               = wire (c\<lparr>date_time_string := d2\<rparr>) (trace pf w2 p) \<longleftrightarrow> d1 = d2"
      using differ [of r c d1 d2] by simp
  qed
qed

text \<open>Run: \<^verbatim>\<open>GET /\<close> twice in a row; the log has grown in between, the files have
  not. The calls are the same, the bytes are the same at the same stamp, and differ a
  second apart.\<close>

theorem same_files_same_response_but_date_witness:
  "filesystem idle = filesystem (snd (do_GET quiet idle ''/''))
   \<and> effects idle \<noteq> effects (snd (do_GET quiet idle ''/''))
   \<and> urlparse quiet ''/'' = Inr \<lparr>scheme = '''', netloc = '''', url_path = ''/'', params = '''',
         query = '''', fragment = ''''\<rparr>
   \<and> request_version at_noon \<noteq> ''HTTP/0.9''
   \<and> fst (do_GET quiet idle ''/'') = fst (do_GET quiet (snd (do_GET quiet idle ''/'')) ''/'')
   \<and> trace quiet idle ''/'' = trace quiet (snd (do_GET quiet idle ''/'')) ''/''
   \<and> wire at_noon (trace quiet idle ''/'')
       = wire at_noon (trace quiet (snd (do_GET quiet idle ''/'')) ''/'')
   \<and> wire (at_noon\<lparr>date_time_string := ''Tue, 03 Nov 2026 12:00:00 GMT''\<rparr>)
          (trace quiet idle ''/'')
       \<noteq> wire (at_noon\<lparr>date_time_string := ''Tue, 03 Nov 2026 12:00:01 GMT''\<rparr>)
          (trace quiet (snd (do_GET quiet idle ''/'')) ''/'')"
proof -
  have same: "filesystem idle = filesystem (snd (do_GET quiet idle ''/''))"
    by (simp add: twice_index)
  have v: "request_version at_noon \<noteq> ''HTTP/0.9''"
    by (simp add: at_noon_def)
  note inst = same_files_same_response_but_date [OF same, of quiet "''/''"]
  note outcome = inst [THEN conjunct1]
  note calls = inst [THEN conjunct2, THEN conjunct1]
  note bytes = inst [THEN conjunct2, THEN conjunct2, THEN conjunct1, rule_format, of at_noon]
  note stamp = inst [THEN conjunct2, THEN conjunct2, THEN conjunct2, THEN conjunct2, rule_format,
      OF conjI, OF urlparse_plain(1) v,
      of "''Tue, 03 Nov 2026 12:00:00 GMT''" "''Tue, 03 Nov 2026 12:00:01 GMT''"]
  from stamp
  have "wire (at_noon\<lparr>date_time_string := ''Tue, 03 Nov 2026 12:00:00 GMT''\<rparr>)
          (trace quiet idle ''/'')
       \<noteq> wire (at_noon\<lparr>date_time_string := ''Tue, 03 Nov 2026 12:00:01 GMT''\<rparr>)
          (trace quiet (snd (do_GET quiet idle ''/'')) ''/'')"
    by simp
  with same twice_index(2) urlparse_plain(1) [of quiet] v outcome calls bytes
  show ?thesis by (intro conjI) simp_all
qed

subsection \<open>The handler only reads\<close>

text \<open>
  C10. Handling a GET leaves everything but the bytes sent to the client as it was: the
  bind address is unchanged; the filesystem after the request is the one before it, or
  the one other processes made of it meanwhile, and is unchanged when they do nothing;
  the log is only extended; and every system call in the extension is a read (the
  existence check, or an \<^verbatim>\<open>open\<close> in mode \<^verbatim>\<open>'rb'\<close>), so no file is written
  or created.
\<close>

theorem handler_only_reads:
  "server_address (snd (do_GET pf w p)) = server_address w
   \<and> (filesystem (snd (do_GET pf w p)) = filesystem w
        \<or> filesystem (snd (do_GET pf w p)) = concurrent pf (filesystem w))
   \<and> (concurrent pf (filesystem w) = filesystem w \<longrightarrow>
        filesystem (snd (do_GET pf w p)) = filesystem w)
   \<and> effects (snd (do_GET pf w p)) = effects w @ trace pf w p
   \<and> (\<forall>e \<in> set (trace pf w p). read_only e)"
  by (rule do_GET_paths [of pf p w]) auto


theorem handler_only_reads_witness:
  "server_address (snd (do_GET quiet idle ''/static/app.js'')) = (''0.0.0.0'', 8000)
   \<and> concurrent quiet (filesystem idle) = filesystem idle
   \<and> filesystem (snd (do_GET quiet idle ''/static/app.js'')) = cwd
   \<and> effects (snd (do_GET quiet idle ''/static/app.js'')) =
        [Os_path_exists ''./static/app.js'',
         Send_response 200,
         Send_header ''Content-type'' ''text/javascript'',
         End_headers,
         Open ''./static/app.js'' ''rb'',
         File_read ''./static/app.js'',
         Wfile_write ''console.log(1);'',
         File_close ''./static/app.js'']
   \<and> list_all read_only (trace quiet idle ''/static/app.js'')"
proof -
  have m: "do_GET quiet idle ''/static/app.js'' =
    (Returned,
     idle\<lparr>filesystem := concurrent quiet (filesystem idle),
       effects := effects idle @
        [Os_path_exists (''.'' @ ''/static/app.js''), Send_response 200,
         Send_header ''Content-type'' ''text/javascript'', End_headers,
         Open (''.'' @ ''/static/app.js'') ''rb'', File_read (''.'' @ ''/static/app.js''),
         Wfile_write ''console.log(1);'', File_close (''.'' @ ''/static/app.js'')]\<rparr>)"
    by (rule path_found_file) (simp_all add: example_targets example_entries)
  have quiet: "concurrent quiet (filesystem idle) = filesystem idle"
    by (simp add: example_entries)
  from handler_only_reads [of quiet idle "''/static/app.js''"] quiet
  have "server_address (snd (do_GET quiet idle ''/static/app.js'')) = server_address idle"
    and "filesystem (snd (do_GET quiet idle ''/static/app.js'')) = filesystem idle"
    and "effects (snd (do_GET quiet idle ''/static/app.js'')) =
           effects idle @ trace quiet idle ''/static/app.js''"
    and "list_all read_only (trace quiet idle ''/static/app.js'')"
    by (simp_all add: list_all_iff)
  moreover have "trace quiet idle ''/static/app.js'' =
        [Os_path_exists ''./static/app.js'', Send_response 200,
         Send_header ''Content-type'' ''text/javascript'', End_headers,
         Open ''./static/app.js'' ''rb'', File_read ''./static/app.js'',
         Wfile_write ''console.log(1);'', File_close ''./static/app.js'']"
    by (simp add: trace_of [OF m])
  moreover have "server_address idle = (''0.0.0.0'', 8000)" "filesystem idle = cwd" "effects idle = []"
    by (simp_all add: idle_def)
  ultimately show ?thesis
    using quiet by simp
qed

end
